theory Spec2Isabelle
  imports Complex_Main "HOL-Library.Word"
begin

section \<open>C floating-point values\<close>

text \<open>
  The program computes with C \<^verbatim>\<open>float\<close> and \<^verbatim>\<open>double\<close>. A value is a finite
  number, one of the two infinities, or NaN. The operations below follow the IEEE 754 rules
  for the special values (NaN propagates, \<open>\<infinity> - \<infinity>\<close> and \<open>0 \<times> \<infinity>\<close> are NaN, a
  nonzero number divided by zero is an infinity, every ordered comparison with NaN is false).
  On finite operands they are the exact operations of the reals, and the sign of zero is not
  modelled (a zero divisor counts as \<open>+0\<close>, which is what \<^verbatim>\<open>log(1)\<close> returns).
  Rounding to a format is a separate step, \<open>to_float\<close> and \<open>to_double\<close> below. The motion
  controller and the drift calibration apply it after every operation, in the format C gives
  the operation, because their results are cast to integers or accumulated. The distance
  estimate and the comparisons of the wall detector are stated on the exact operations.
\<close>

datatype float = Finite real | PInf | MInf | NaN

fun is_finite :: "float \<Rightarrow> bool" where
  "is_finite (Finite x) = True"
| "is_finite _ = False"

fun fneg :: "float \<Rightarrow> float" where
  "fneg (Finite x) = Finite (- x)"
| "fneg PInf = MInf"
| "fneg MInf = PInf"
| "fneg NaN = NaN"

fun fadd :: "float \<Rightarrow> float \<Rightarrow> float" where
  "fadd NaN _ = NaN"
| "fadd _ NaN = NaN"
| "fadd (Finite x) (Finite y) = Finite (x + y)"
| "fadd PInf MInf = NaN"
| "fadd MInf PInf = NaN"
| "fadd PInf _ = PInf"
| "fadd MInf _ = MInf"
| "fadd (Finite x) PInf = PInf"
| "fadd (Finite x) MInf = MInf"

definition fsub :: "float \<Rightarrow> float \<Rightarrow> float" where
  "fsub a b = fadd a (fneg b)"

fun fmul :: "float \<Rightarrow> float \<Rightarrow> float" where
  "fmul NaN _ = NaN"
| "fmul _ NaN = NaN"
| "fmul (Finite x) (Finite y) = Finite (x * y)"
| "fmul (Finite x) PInf = (if x = 0 then NaN else if 0 < x then PInf else MInf)"
| "fmul (Finite x) MInf = (if x = 0 then NaN else if 0 < x then MInf else PInf)"
| "fmul PInf (Finite y) = (if y = 0 then NaN else if 0 < y then PInf else MInf)"
| "fmul MInf (Finite y) = (if y = 0 then NaN else if 0 < y then MInf else PInf)"
| "fmul PInf PInf = PInf"
| "fmul PInf MInf = MInf"
| "fmul MInf PInf = MInf"
| "fmul MInf MInf = PInf"

fun fdiv :: "float \<Rightarrow> float \<Rightarrow> float" where
  "fdiv NaN _ = NaN"
| "fdiv _ NaN = NaN"
| "fdiv (Finite x) (Finite y) =
     (if y = 0 then (if x = 0 then NaN else if 0 < x then PInf else MInf)
      else Finite (x / y))"
| "fdiv (Finite x) PInf = Finite 0"
| "fdiv (Finite x) MInf = Finite 0"
| "fdiv PInf (Finite y) = (if 0 \<le> y then PInf else MInf)"
| "fdiv MInf (Finite y) = (if 0 \<le> y then MInf else PInf)"
| "fdiv PInf PInf = NaN"
| "fdiv PInf MInf = NaN"
| "fdiv MInf PInf = NaN"
| "fdiv MInf MInf = NaN"

text \<open>\<^verbatim>\<open>log\<close> of the C library: NaN below zero, \<open>-\<infinity>\<close> at zero.\<close>

fun flog :: "float \<Rightarrow> float" where
  "flog (Finite x) = (if x < 0 then NaN else if x = 0 then MInf else Finite (ln x))"
| "flog PInf = PInf"
| "flog MInf = NaN"
| "flog NaN = NaN"

text \<open>The comparison \<^verbatim>\<open>a < b\<close>; \<^verbatim>\<open>a > b\<close> is \<open>fless b a\<close>.\<close>

fun fless :: "float \<Rightarrow> float \<Rightarrow> bool" where
  "fless (Finite x) (Finite y) = (x < y)"
| "fless (Finite x) PInf = True"
| "fless MInf (Finite y) = True"
| "fless MInf PInf = True"
| "fless _ _ = False"

text \<open>
  A cast from a floating-point value to an integer type drops the fraction (rounds towards
  zero). When the result does not fit \<^verbatim>\<open>int32_t\<close>, or the value is not finite, the C standard
  leaves the behaviour undefined: \<open>float_to_int32\<close> returns \<open>None\<close>.
\<close>

definition trunc :: "real \<Rightarrow> int" where
  "trunc r = (if 0 \<le> r then \<lfloor>r\<rfloor> else \<lceil>r\<rceil>)"

fun float_to_int32 :: "float \<Rightarrow> int option" where
  "float_to_int32 (Finite r) =
     (if - (2 ^ 31) \<le> trunc r \<and> trunc r < 2 ^ 31 then Some (trunc r) else None)"
| "float_to_int32 _ = None"


subsection \<open>Rounding to binary32 and binary64\<close>

text \<open>
  Round to nearest, ties to even, for a format with \<open>p\<close> significant bits and exponents
  from \<open>emin\<close> to \<open>emax\<close>. \<open>binade a emin emax\<close> is the exponent \<open>e\<close> with
  \<open>2\<^sup>e \<le> a < 2\<^sup>e\<^sup>+\<^sup>1\<close>, kept at \<open>emin\<close> below the normal range (where the spacing
  of the format stays that of its smallest normal numbers) and at \<open>emax\<close> above it. The
  value is rounded to a whole multiple of \<open>2\<^sup>e\<^sup>-\<^sup>p\<^sup>+\<^sup>1\<close>; a result of \<open>2\<^sup>e\<^sup>m\<^sup>a\<^sup>x\<^sup>+\<^sup>1\<close> or
  more is an infinity.
\<close>

definition pow2 :: "int \<Rightarrow> real" where
  "pow2 e = (if 0 \<le> e then 2 ^ nat e else 1 / 2 ^ nat (- e))"

function scale_down :: "real \<Rightarrow> int \<Rightarrow> int \<Rightarrow> int" where
  "scale_down a e hi = (if 2 \<le> a \<and> e < hi then scale_down (a / 2) (e + 1) hi else e)"
  by pat_completeness auto
termination
  by (relation "measure (\<lambda>(a, e, hi). nat (hi - e))") auto

function scale_up :: "real \<Rightarrow> int \<Rightarrow> int \<Rightarrow> int" where
  "scale_up a e lo = (if a < 1 \<and> lo < e then scale_up (2 * a) (e - 1) lo else e)"
  by pat_completeness auto
termination
  by (relation "measure (\<lambda>(a, e, lo). nat (e - lo))") auto

declare scale_down.simps [simp del] scale_up.simps [simp del]

definition binade :: "real \<Rightarrow> int \<Rightarrow> int \<Rightarrow> int" where
  "binade a emin emax = (if 1 \<le> a then scale_down a 0 emax else scale_up a 0 emin)"

definition round_half_even :: "real \<Rightarrow> int" where
  "round_half_even y =
     (if y - of_int \<lfloor>y\<rfloor> < 1 / 2 then \<lfloor>y\<rfloor>
      else if 1 / 2 < y - of_int \<lfloor>y\<rfloor> then \<lfloor>y\<rfloor> + 1
      else if even \<lfloor>y\<rfloor> then \<lfloor>y\<rfloor> else \<lfloor>y\<rfloor> + 1)"

definition round_at :: "nat \<Rightarrow> int \<Rightarrow> int \<Rightarrow> real \<Rightarrow> float" where
  "round_at p emax e x =
     (if e = emax \<and> 2 ^ p \<le> \<bar>round_half_even (x / pow2 (e - int p + 1))\<bar>
      then (if 0 < x then PInf else MInf)
      else Finite (of_int (round_half_even (x / pow2 (e - int p + 1))) * pow2 (e - int p + 1)))"

definition round_to :: "nat \<Rightarrow> int \<Rightarrow> int \<Rightarrow> real \<Rightarrow> float" where
  "round_to p emin emax x =
     (if x = 0 then Finite 0 else round_at p emax (binade \<bar>x\<bar> emin emax) x)"

text \<open>
  A value stored in a \<^verbatim>\<open>float\<close>, or the result of an operation on \<^verbatim>\<open>float\<close> operands,
  is rounded by \<open>to_float\<close>; an operation with a \<^verbatim>\<open>double\<close> operand is rounded by
  \<open>to_double\<close>. A decimal constant of the configuration is the \<^verbatim>\<open>double\<close> next to it, and
  an integer operand is converted to the type of the other operand.
\<close>

fun to_float :: "float \<Rightarrow> float" where
  "to_float (Finite x) = round_to 24 (- 126) 127 x"
| "to_float x = x"

fun to_double :: "float \<Rightarrow> float" where
  "to_double (Finite x) = round_to 53 (- 1022) 1023 x"
| "to_double x = x"

section \<open>Configuration constants\<close>

text \<open>
  Modelled from the spec: the sensor identifiers and \<^verbatim>\<open>NUM_SENSOR\<close> are macros of a header
  that is not part of the sources. The spec fixes four sensors in the order side-left,
  side-right, front-left, front-right, which is also the order of the initialisers of
  \<^verbatim>\<open>sensors_calibration_a\<close> and the starting index 0 of the state machine.
\<close>

definition NUM_SENSOR :: nat where "NUM_SENSOR = 4"
definition SENSOR_SIDE_LEFT_ID :: nat where "SENSOR_SIDE_LEFT_ID = 0"
definition SENSOR_SIDE_RIGHT_ID :: nat where "SENSOR_SIDE_RIGHT_ID = 1"
definition SENSOR_FRONT_LEFT_ID :: nat where "SENSOR_FRONT_LEFT_ID = 2"
definition SENSOR_FRONT_RIGHT_ID :: nat where "SENSOR_FRONT_RIGHT_ID = 3"

text \<open>
  The numeric configuration macros (\<^verbatim>\<open>CELL_DIMENSION\<close>, \<^verbatim>\<open>MIDDLE_MAZE_DISTANCE\<close>,
  \<^verbatim>\<open>MICROMETERS_PER_METER\<close>, the calibration pairs) are defined outside the sources as
  well; their values are parameters of the model.
\<close>

record config =
  CELL_DIMENSION :: real
  MIDDLE_MAZE_DISTANCE :: real
  MICROMETERS_PER_METER :: real
  sensors_calibration_a :: "nat \<Rightarrow> real"
  sensors_calibration_b :: "nat \<Rightarrow> real"

definition SIDE_WALL_DETECTION :: "config \<Rightarrow> real" where
  "SIDE_WALL_DETECTION c = CELL_DIMENSION c * 0.90"

definition FRONT_WALL_DETECTION :: "config \<Rightarrow> real" where
  "FRONT_WALL_DETECTION c = CELL_DIMENSION c * 1.5"

definition SIDE_CALIBRATION_READINGS :: nat where "SIDE_CALIBRATION_READINGS = 20"

section \<open>State of detection.c\<close>

text \<open>The four emitter pins; \<open>gpio\<close> below is the set of pins that are driven high.\<close>

datatype pin = GPIOA_GPIO8 | GPIOA_GPIO9 | GPIOB_GPIO8 | GPIOB_GPIO9

record detection =
  emitter_status :: "8 word"
  sensor_index :: "8 word"
  gpio :: "pin set"
  sensors_off :: "nat \<Rightarrow> 16 word"
  sensors_on :: "nat \<Rightarrow> 16 word"
  distance :: "nat \<Rightarrow> float"
  calibration_factor :: "nat \<Rightarrow> float"

definition set_emitter_on :: "8 word \<Rightarrow> pin set \<Rightarrow> pin set" where
  "set_emitter_on emitter g =
     (if unat emitter = SENSOR_SIDE_LEFT_ID then insert GPIOA_GPIO9 g
      else if unat emitter = SENSOR_SIDE_RIGHT_ID then insert GPIOB_GPIO8 g
      else if unat emitter = SENSOR_FRONT_LEFT_ID then insert GPIOA_GPIO8 g
      else if unat emitter = SENSOR_FRONT_RIGHT_ID then insert GPIOB_GPIO9 g
      else g)"

definition set_emitter_off :: "8 word \<Rightarrow> pin set \<Rightarrow> pin set" where
  "set_emitter_off emitter g =
     (if unat emitter = SENSOR_SIDE_LEFT_ID then g - {GPIOA_GPIO9}
      else if unat emitter = SENSOR_SIDE_RIGHT_ID then g - {GPIOB_GPIO8}
      else if unat emitter = SENSOR_FRONT_LEFT_ID then g - {GPIOA_GPIO8}
      else if unat emitter = SENSOR_FRONT_RIGHT_ID then g - {GPIOB_GPIO9}
      else g)"

text \<open>
  One call of the state machine, that is one timer tick. \<open>adc_read_injected\<close> gives the
  value the injected channel holds at this tick. Starting a conversion changes nothing the
  model keeps.
\<close>

definition sm_emitter_adc :: "(nat \<Rightarrow> 16 word) \<Rightarrow> detection \<Rightarrow> detection" where
  "sm_emitter_adc adc_read_injected s =
     (if emitter_status s = 1 then
        s\<lparr>sensors_off := (sensors_off s)
              (unat (sensor_index s) := adc_read_injected (unat (sensor_index s) + 1)),
          gpio := set_emitter_on (sensor_index s) (gpio s),
          emitter_status := 2\<rparr>
      else if emitter_status s = 2 then s\<lparr>emitter_status := 3\<rparr>
      else if emitter_status s = 3 then
        s\<lparr>sensors_on := (sensors_on s)
              (unat (sensor_index s) := adc_read_injected (unat (sensor_index s) + 1)),
          gpio := set_emitter_off (sensor_index s) (gpio s),
          emitter_status := 4\<rparr>
      else if emitter_status s = 4 then
        s\<lparr>emitter_status := 1,
          sensor_index :=
            (if unat (sensor_index s) = NUM_SENSOR - 1 then 0 else sensor_index s + 1)\<rparr>
      else s)"

text \<open>The emitter pin of a sensor, as \<open>set_emitter_on\<close> and \<open>set_emitter_off\<close> pair them.\<close>

definition emitter_pin :: "8 word \<Rightarrow> pin" where
  "emitter_pin i =
     (if unat i = SENSOR_SIDE_LEFT_ID then GPIOA_GPIO9
      else if unat i = SENSOR_SIDE_RIGHT_ID then GPIOB_GPIO8
      else if unat i = SENSOR_FRONT_LEFT_ID then GPIOA_GPIO8
      else GPIOB_GPIO9)"

text \<open>
  A run of ticks from a state, one converter reading function per tick. The states the
  machine reaches are the runs from an initial state: status 1, sensor index
  \<open>SENSOR_SIDE_LEFT_ID\<close>, every emitter pin low.
\<close>


fun ticks :: "(nat \<Rightarrow> 16 word) list \<Rightarrow> detection \<Rightarrow> detection" where
  "ticks [] s = s"
| "ticks (adc # adcs) s = ticks adcs (sm_emitter_adc adc s)"


subsection \<open>Distances\<close>

text \<open>
  One round of the loop of \<open>update_distance_readings\<close>. The two readings are
  \<^verbatim>\<open>uint16_t\<close>; C promotes them to \<^verbatim>\<open>int\<close> before the subtraction, so the difference
  is a signed integer between -65535 and 65535 and its conversion to \<^verbatim>\<open>float\<close> is exact.
\<close>

definition update_distance_step :: "config \<Rightarrow> nat \<Rightarrow> detection \<Rightarrow> detection" where
  "update_distance_step c i s =
     (let s1 = s\<lparr>distance := (distance s)
                 (i := fsub (fdiv (Finite (sensors_calibration_a c i))
                                  (flog (Finite (of_int (int (unat (sensors_on s i)) -
                                                         int (unat (sensors_off s i)))))))
                            (Finite (sensors_calibration_b c i)))\<rparr>
      in if i = SENSOR_SIDE_LEFT_ID \<or> i = SENSOR_SIDE_RIGHT_ID
         then s1\<lparr>distance := (distance s1)(i := fsub (distance s1 i) (calibration_factor s1 i))\<rparr>
         else s1)"

definition update_distance_readings :: "config \<Rightarrow> detection \<Rightarrow> detection" where
  "update_distance_readings c s = fold (update_distance_step c) [0..<NUM_SENSOR] s"

definition get_front_left_distance :: "detection \<Rightarrow> float" where
  "get_front_left_distance s = distance s SENSOR_FRONT_LEFT_ID"

definition get_front_right_distance :: "detection \<Rightarrow> float" where
  "get_front_right_distance s = distance s SENSOR_FRONT_RIGHT_ID"

definition get_side_left_distance :: "detection \<Rightarrow> float" where
  "get_side_left_distance s = distance s SENSOR_SIDE_LEFT_ID"

definition get_side_right_distance :: "detection \<Rightarrow> float" where
  "get_side_right_distance s = distance s SENSOR_SIDE_RIGHT_ID"

definition get_side_sensors_error :: "config \<Rightarrow> detection \<Rightarrow> float" where
  "get_side_sensors_error c s =
     (if fless (Finite (MIDDLE_MAZE_DISTANCE c)) (distance s SENSOR_SIDE_LEFT_ID) \<and>
         fless (distance s SENSOR_SIDE_RIGHT_ID) (Finite (MIDDLE_MAZE_DISTANCE c))
      then fsub (distance s SENSOR_SIDE_RIGHT_ID) (Finite (MIDDLE_MAZE_DISTANCE c))
      else if fless (Finite (MIDDLE_MAZE_DISTANCE c)) (distance s SENSOR_SIDE_RIGHT_ID) \<and>
              fless (distance s SENSOR_SIDE_LEFT_ID) (Finite (MIDDLE_MAZE_DISTANCE c))
      then fsub (Finite (MIDDLE_MAZE_DISTANCE c)) (distance s SENSOR_SIDE_LEFT_ID)
      else Finite 0)"

text \<open>
  The sum of two \<^verbatim>\<open>float\<close> values is a \<^verbatim>\<open>float\<close>; the division by \<^verbatim>\<open>2.\<close> is done in
  \<^verbatim>\<open>double\<close> and the function returns a \<^verbatim>\<open>float\<close>.
\<close>

definition get_front_wall_distance :: "detection \<Rightarrow> float" where
  "get_front_wall_distance s =
     to_float (to_double
       (fdiv (to_float (fadd (distance s SENSOR_FRONT_LEFT_ID) (distance s SENSOR_FRONT_RIGHT_ID)))
             (Finite 2)))"

definition left_wall_detection :: "config \<Rightarrow> detection \<Rightarrow> bool" where
  "left_wall_detection c s =
     (if fless (distance s SENSOR_SIDE_LEFT_ID) (Finite (SIDE_WALL_DETECTION c)) then True else False)"

definition right_wall_detection :: "config \<Rightarrow> detection \<Rightarrow> bool" where
  "right_wall_detection c s =
     (if fless (distance s SENSOR_SIDE_RIGHT_ID) (Finite (SIDE_WALL_DETECTION c)) then True else False)"

definition front_wall_detection :: "config \<Rightarrow> detection \<Rightarrow> bool" where
  "front_wall_detection c s =
     (if fless (distance s SENSOR_FRONT_LEFT_ID) (Finite (FRONT_WALL_DETECTION c)) \<and>
         fless (distance s SENSOR_FRONT_RIGHT_ID) (Finite (FRONT_WALL_DETECTION c))
      then True else False)"

text \<open>
  \<open>side_sensors_calibration\<close> reads the two side distances once per round of its loop and
  sleeps in between, while the distances are recomputed elsewhere. \<open>readings i\<close> is the
  distance array as the \<open>i\<close>-th round of the loop sees it. The two sums are \<^verbatim>\<open>float\<close>
  variables, so every addition is rounded to \<^verbatim>\<open>float\<close>, and so is the division by the
  number of readings. \<^verbatim>\<open>MIDDLE_MAZE_DISTANCE\<close> is a \<^verbatim>\<open>double\<close>: the subtraction and the
  addition to the offset are done in \<^verbatim>\<open>double\<close>, and the offset is stored as a \<^verbatim>\<open>float\<close>.
\<close>

definition calibration_sums :: "(nat \<Rightarrow> nat \<Rightarrow> float) \<Rightarrow> float \<times> float" where
  "calibration_sums readings =
     fold (\<lambda>i (left_temp, right_temp).
             (to_float (fadd left_temp (readings i SENSOR_SIDE_LEFT_ID)),
              to_float (fadd right_temp (readings i SENSOR_SIDE_RIGHT_ID))))
          [0..<SIDE_CALIBRATION_READINGS] (Finite 0, Finite 0)"

definition side_sensors_calibration ::
  "config \<Rightarrow> (nat \<Rightarrow> nat \<Rightarrow> float) \<Rightarrow> detection \<Rightarrow> detection" where
  "side_sensors_calibration c readings s =
     (let (left_temp, right_temp) = calibration_sums readings;
          s1 = s\<lparr>calibration_factor := (calibration_factor s)
                 (SENSOR_SIDE_LEFT_ID :=
                    to_float (to_double
                      (fadd (calibration_factor s SENSOR_SIDE_LEFT_ID)
                         (to_double
                            (fsub (to_float (fdiv left_temp
                                     (to_float (Finite (real SIDE_CALIBRATION_READINGS)))))
                                  (to_double (Finite (MIDDLE_MAZE_DISTANCE c)))))))) \<rparr>
      in s1\<lparr>calibration_factor := (calibration_factor s1)
              (SENSOR_SIDE_RIGHT_ID :=
                 to_float (to_double
                   (fadd (calibration_factor s1 SENSOR_SIDE_RIGHT_ID)
                      (to_double
                         (fsub (to_float (fdiv right_temp
                                  (to_float (Finite (real SIDE_CALIBRATION_READINGS)))))
                               (to_double (Finite (MIDDLE_MAZE_DISTANCE c))))))))\<rparr>)"

text \<open>The sum of a list of \<^verbatim>\<open>float\<close> values from left to right, each addition rounded.\<close>

definition float_sum :: "float list \<Rightarrow> float" where
  "float_sum xs = foldl (\<lambda>acc x. to_float (fadd acc x)) (Finite 0) xs"

text \<open>
  What a calibration adds to the offset of one side, from the samples \<open>xs\<close> of that side:
  their mean, summed and divided in \<^verbatim>\<open>float\<close>, minus \<^verbatim>\<open>MIDDLE_MAZE_DISTANCE\<close> in
  \<^verbatim>\<open>double\<close>.
\<close>

definition drift_correction :: "config \<Rightarrow> float list \<Rightarrow> float" where
  "drift_correction c xs =
     to_double (fsub (to_float (fdiv (float_sum xs)
                                     (to_float (Finite (real SIDE_CALIBRATION_READINGS)))))
                     (to_double (Finite (MIDDLE_MAZE_DISTANCE c))))"

section \<open>State of the motion controller\<close>

text \<open>
  \<open>cell_shift\<close> and \<open>current_cell_start_micrometers\<close> are the statics of the motion
  controller. The other fields stand for its collaborators: the LED, the targets and the
  magnitudes the low-level controller holds, and the tick counter of the clock.
  \<open>angular_history\<close> is a ghost field: it collects the target angular speed in force at
  every tick a busy-wait has seen go by.
\<close>

record motion =
  cell_shift :: float
  current_cell_start_micrometers :: int
  led_left :: bool
  target_linear_speed :: float
  target_angular_speed :: float
  linear_acceleration :: float
  linear_deceleration :: float
  clock_ticks :: "32 word"
  angular_history :: "float list"

definition int32_range :: "int \<Rightarrow> bool" where
  "int32_range x \<longleftrightarrow> - (2 ^ 31) \<le> x \<and> x < 2 ^ 31"

text \<open>
  \<open>encoder\<close> is what \<^verbatim>\<open>get_encoder_average_micrometers\<close> returns, and the distances
  are read from one state of the sensors. \<^verbatim>\<open>CELL_DIMENSION\<close> is a \<^verbatim>\<open>double\<close>, so the
  subtraction and the product are done in \<^verbatim>\<open>double\<close>. The result is \<open>None\<close> where C
  leaves the behaviour undefined: the cast of the correction out of the range of
  \<^verbatim>\<open>int32_t\<close>, or the signed addition overflowing.
\<close>

definition entered_next_cell :: "config \<Rightarrow> detection \<Rightarrow> int \<Rightarrow> motion \<Rightarrow> motion option" where
  "entered_next_cell c d encoder m =
     (let m1 = m\<lparr>current_cell_start_micrometers := encoder\<rparr> in
      if front_wall_detection c d then
        (case float_to_int32
                (to_double
                   (fmul (to_double (fsub (get_front_wall_distance d)
                                          (to_double (Finite (CELL_DIMENSION c)))))
                         (to_double (Finite (MICROMETERS_PER_METER c))))) of
           None \<Rightarrow> None
         | Some front_wall_correction \<Rightarrow>
             if int32_range (current_cell_start_micrometers m1 + front_wall_correction)
             then Some (m1\<lparr>current_cell_start_micrometers :=
                              current_cell_start_micrometers m1 + front_wall_correction,
                            cell_shift := Finite 0,
                            led_left := \<not> led_left m1\<rparr>)
             else None)
      else Some (m1\<lparr>cell_shift := Finite 0, led_left := \<not> led_left m1\<rparr>))"


text \<open>
  The loop \<^verbatim>\<open>while (get_clock_ticks() - starting_time <= n);\<close>. Its body is empty and its
  test reads nothing but the clock, so the tests made within one tick all agree: the model
  makes one test per tick, and the clock moves on by one tick when the test holds. The
  subtraction is the one of \<^verbatim>\<open>uint32_t\<close>, modulo \<open>2 ^ 32\<close>. The loop need not end (with
  \<open>n = 2 ^ 32 - 1\<close> it never does), so the function is partial.
\<close>

partial_function (option) busy_wait :: "32 word \<Rightarrow> 32 word \<Rightarrow> motion \<Rightarrow> motion option" where
  "busy_wait starting_time n m =
     (if clock_ticks m - starting_time \<le> n
      then busy_wait starting_time n
             (m\<lparr>clock_ticks := clock_ticks m + 1,
                angular_history := angular_history m @ [target_angular_speed m]\<rparr>)
      else Some m)"

definition turn_left :: "motion \<Rightarrow> motion option" where
  "turn_left m =
     (let starting_time = clock_ticks m in
      case busy_wait starting_time 88 (m\<lparr>target_angular_speed := Finite (- 8 * pi)\<rparr>) of
        None \<Rightarrow> None
      | Some m1 \<Rightarrow> busy_wait starting_time 176 (m1\<lparr>target_angular_speed := Finite 0\<rparr>))"

definition turn_right :: "motion \<Rightarrow> motion option" where
  "turn_right m =
     (let starting_time = clock_ticks m in
      case busy_wait starting_time 88 (m\<lparr>target_angular_speed := Finite (8 * pi)\<rparr>) of
        None \<Rightarrow> None
      | Some m1 \<Rightarrow> busy_wait starting_time 176 (m1\<lparr>target_angular_speed := Finite 0\<rparr>))"

section \<open>Concrete configuration and states\<close>

text \<open>
  Values for the concrete evaluations below: a cell of 0.18 m, walls 0.012 m thick, so the
  middle of a corridor is 0.084 m from either wall, and the calibration pair 0.6, 0.05.
\<close>

definition example_config :: config where
  "example_config =
     \<lparr>CELL_DIMENSION = 0.18, MIDDLE_MAZE_DISTANCE = 0.084, MICROMETERS_PER_METER = 1000000,
      sensors_calibration_a = (\<lambda>i. 0.6), sensors_calibration_b = (\<lambda>i. 0.05)\<rparr>"

definition example_detection :: "float \<Rightarrow> float \<Rightarrow> float \<Rightarrow> float \<Rightarrow> detection" where
  "example_detection sl sr fl fr =
     \<lparr>emitter_status = 1, sensor_index = 0, gpio = {},
      sensors_off = (\<lambda>i. 0), sensors_on = (\<lambda>i. 0),
      distance = (\<lambda>i. if i = 0 then sl else if i = 1 then sr else if i = 2 then fl else fr),
      calibration_factor = (\<lambda>i. Finite 0)\<rparr>"

definition example_motion :: motion where
  "example_motion =
     \<lparr>cell_shift = Finite 0.042, current_cell_start_micrometers = 0, led_left = False,
      target_linear_speed = Finite 0, target_angular_speed = Finite 0,
      linear_acceleration = Finite 1, linear_deceleration = Finite 1,
      clock_ticks = 0, angular_history = []\<rparr>"

section \<open>The sensor cycle\<close>

text \<open>
  What holds between two ticks: the index is a sensor, the status is one of the four phases,
  and the pins that are high are the active sensor's between its phases 1 and 3 and none
  otherwise.
\<close>

definition sm_inv :: "detection \<Rightarrow> bool" where
  "sm_inv s \<longleftrightarrow>
     unat (sensor_index s) < NUM_SENSOR \<and>
     (emitter_status s = 1 \<or> emitter_status s = 2 \<or> emitter_status s = 3 \<or> emitter_status s = 4) \<and>
     gpio s = (if emitter_status s = 2 \<or> emitter_status s = 3
               then {emitter_pin (sensor_index s)} else {})"

lemmas sensor_ids =
  NUM_SENSOR_def SENSOR_SIDE_LEFT_ID_def SENSOR_SIDE_RIGHT_ID_def
  SENSOR_FRONT_LEFT_ID_def SENSOR_FRONT_RIGHT_ID_def

lemma sm_inv_init:
  "emitter_status s = 1 \<Longrightarrow> unat (sensor_index s) = SENSOR_SIDE_LEFT_ID \<Longrightarrow> gpio s = {} \<Longrightarrow>
   sm_inv s"
  by (simp add: sm_inv_def sensor_ids)

lemma index_cases:
  "unat (i :: 8 word) < 4 \<Longrightarrow> i = 0 \<or> i = 1 \<or> i = 2 \<or> i = 3"
  unfolding word_unat_eq_iff [of i] by (simp; arith)

lemma sm_inv_tick: "sm_inv s \<Longrightarrow> sm_inv (sm_emitter_adc adc s)"
proof -
  assume inv: "sm_inv s"
  then have "unat (sensor_index s) < 4" by (simp add: sm_inv_def sensor_ids)
  from index_cases [OF this] inv show ?thesis
    by (auto simp: sm_inv_def sm_emitter_adc_def set_emitter_on_def set_emitter_off_def
        emitter_pin_def sensor_ids)
qed

lemma ticks_append: "ticks (xs @ ys) s = ticks ys (ticks xs s)"
  by (induction xs arbitrary: s) auto

lemma sm_inv_ticks: "sm_inv s \<Longrightarrow> sm_inv (ticks adcs s)"
  by (induction adcs arbitrary: s) (auto intro: sm_inv_tick)

lemma tick_phase:
  assumes inv: "sm_inv s"
    and st: "unat (emitter_status s) = n mod 4 + 1"
    and ix: "unat (sensor_index s) = (n div 4) mod 4"
  shows "unat (emitter_status (sm_emitter_adc adc s)) = Suc n mod 4 + 1 \<and>
         unat (sensor_index (sm_emitter_adc adc s)) = (Suc n div 4) mod 4"
proof -
  from inv have cases: "emitter_status s = 1 \<or> emitter_status s = 2 \<or> emitter_status s = 3 \<or> emitter_status s = 4"
    by (simp add: sm_inv_def)
  from inv have "unat (sensor_index s) < 4" by (simp add: sm_inv_def sensor_ids)
  note ic = index_cases [OF this]
  from cases show ?thesis
  proof (elim disjE)
    assume e: "emitter_status s = 1"
    with st have "n mod 4 = 0" by simp
    then have "Suc n mod 4 = 1" "Suc n div 4 = n div 4" by presburger+
    with e ix show ?thesis by (simp add: sm_emitter_adc_def)
  next
    assume e: "emitter_status s = 2"
    with st have "n mod 4 = 1" by simp
    then have "Suc n mod 4 = 2" "Suc n div 4 = n div 4" by presburger+
    with e ix show ?thesis by (simp add: sm_emitter_adc_def)
  next
    assume e: "emitter_status s = 3"
    with st have "n mod 4 = 2" by simp
    then have "Suc n mod 4 = 3" "Suc n div 4 = n div 4" by presburger+
    with e ix show ?thesis by (simp add: sm_emitter_adc_def)
  next
    assume e: "emitter_status s = 4"
    with st have "n mod 4 = 3" by simp
    then have a: "Suc n mod 4 = 0" "Suc n div 4 = Suc (n div 4)" by presburger+
    have b: "Suc (n div 4) mod 4 = (if (n div 4) mod 4 = 3 then 0 else (n div 4) mod 4 + 1)"
      by presburger
    from ic e ix a b show ?thesis
      by (auto simp: sm_emitter_adc_def sensor_ids)
  qed
qed

lemma run_phase:
  assumes "emitter_status s0 = 1" "unat (sensor_index s0) = SENSOR_SIDE_LEFT_ID" "gpio s0 = {}"
  shows "unat (emitter_status (ticks adcs s0)) = length adcs mod 4 + 1 \<and>
         unat (sensor_index (ticks adcs s0)) = (length adcs div 4) mod 4"
proof (induction adcs rule: rev_induct)
  case Nil
  from assms show ?case by (simp add: sensor_ids)
next
  case (snoc a adcs)
  have "sm_inv (ticks adcs s0)" using assms by (intro sm_inv_ticks sm_inv_init)
  from tick_phase [OF this, of "length adcs" a] snoc show ?case
    by (simp add: ticks_append)
qed

lemma round_ticks:
  assumes inv: "sm_inv s" and st: "emitter_status s = 1" and ix: "sensor_index s = 0"
    and s': "s' = ticks [a0, a1, a2, a3, a4, a5, a6, a7, a8, a9, a10, a11, a12, a13, a14, a15] s"
  shows "emitter_status s' = 1 \<and> sensor_index s' = 0 \<and> gpio s' = {} \<and>
         sensors_off s' = (sensors_off s)(0 := a0 1, 1 := a4 2, 2 := a8 3, 3 := a12 4) \<and>
         sensors_on s' = (sensors_on s)(0 := a2 1, 1 := a6 2, 2 := a10 3, 3 := a14 4)"
proof -
  from inv st have g: "gpio s = {}" by (simp add: sm_inv_def)
  show ?thesis unfolding s' using st ix g
    by (simp add: sm_emitter_adc_def set_emitter_on_def set_emitter_off_def sensor_ids
        numeral_2_eq_2 [symmetric])
qed

lemma round_readings:
  assumes inv: "sm_inv s" and st: "emitter_status s = 1" and ix: "sensor_index s = 0"
    and len: "length adcs = 16" and i: "i < NUM_SENSOR"
  shows "emitter_status (ticks adcs s) = 1 \<and> sensor_index (ticks adcs s) = 0 \<and>
         gpio (ticks adcs s) = {} \<and>
         sensors_off (ticks adcs s) i = (adcs ! (4 * i)) (i + 1) \<and>
         sensors_on (ticks adcs s) i = (adcs ! (4 * i + 2)) (i + 1)"
proof -
  from len obtain a0 a1 a2 a3 a4 a5 a6 a7 a8 a9 a10 a11 a12 a13 a14 a15
    where adcs: "adcs = [a0, a1, a2, a3, a4, a5, a6, a7, a8, a9, a10, a11, a12, a13, a14, a15]"
    by (auto simp: numeral_eq_Suc length_Suc_conv)
  define s' where "s' = ticks adcs s"
  note r = round_ticks [OF inv st ix s'_def [unfolded adcs]]
  from i have "i = 0 \<or> i = 1 \<or> i = 2 \<or> i = 3" by (simp add: sensor_ids) arith
  with r show ?thesis unfolding s'_def [symmetric] by (auto simp: adcs numeral_2_eq_2 [symmetric])
qed

lemma round_complete:
  assumes init: "emitter_status s0 = 1" "unat (sensor_index s0) = SENSOR_SIDE_LEFT_ID" "gpio s0 = {}"
    and n16: "16 \<le> length adcs" and m16: "length adcs mod 16 = 0" and i: "i < NUM_SENSOR"
  shows "sensors_off (ticks adcs s0) i = (adcs ! (length adcs - 16 + 4 * i)) (i + 1) \<and>
         sensors_on (ticks adcs s0) i = (adcs ! (length adcs - 16 + 4 * i + 2)) (i + 1)"
proof -
  define pre where "pre = take (length adcs - 16) adcs"
  define rnd where "rnd = drop (length adcs - 16) adcs"
  have split: "adcs = pre @ rnd" by (simp add: pre_def rnd_def)
  have len_rnd: "length rnd = 16" using n16 by (simp add: rnd_def)
  have len_pre: "length pre = length adcs - 16" by (simp add: pre_def)
  from n16 m16 have "(length adcs - 16) mod 4 = 0" "((length adcs - 16) div 4) mod 4 = 0"
    by presburger+
  with run_phase [OF init, of pre] len_pre
  have "unat (emitter_status (ticks pre s0)) = 1" "unat (sensor_index (ticks pre s0)) = 0"
    by simp_all
  then have st: "emitter_status (ticks pre s0) = 1" and ix: "sensor_index (ticks pre s0) = 0"
    by (simp_all add: word_unat_eq_iff)
  have inv: "sm_inv (ticks pre s0)" using init by (intro sm_inv_ticks sm_inv_init)
  from i have i4: "4 * i + 2 < 16" by (simp add: sensor_ids)
  have nth: "rnd ! (4 * i) = adcs ! (length adcs - 16 + 4 * i)"
    "rnd ! (4 * i + 2) = adcs ! (length adcs - 16 + 4 * i + 2)"
    using n16 i4 by (simp_all add: rnd_def add.assoc)
  have "ticks adcs s0 = ticks rnd (ticks pre s0)"
    by (subst split) (rule ticks_append)
  with round_readings [OF inv st ix len_rnd i] nth show ?thesis by simp
qed

text \<open>
  Claim C9. Run the state machine from its initial state (status 1, sensor index 0, all
  emitter pins low) for any number \<open>n\<close> of ticks, whatever the converter reads. Then at most
  one emitter pin is high: none before phase 1 and after phase 3 of a sensor, and exactly the
  pin of the active sensor in between. The status is \<open>n mod 4 + 1\<close> and the active sensor
  is \<open>(n div 4) mod 4\<close>, so the index goes 0, 1, 2, 3, 0, one step every four ticks. When a
  round of sixteen ticks is complete, every sensor holds the off reading of its first tick
  and the on reading of its third tick of that round.
\<close>

theorem sensor_cycle_round_robin:
  assumes init: "emitter_status s0 = 1" "unat (sensor_index s0) = SENSOR_SIDE_LEFT_ID" "gpio s0 = {}"
    and s: "s = ticks adcs s0" and n: "n = length adcs"
  shows "card (gpio s) \<le> 1 \<and>
         gpio s = (if n mod 4 = 1 \<or> n mod 4 = 2 then {emitter_pin (sensor_index s)} else {}) \<and>
         unat (emitter_status s) = n mod 4 + 1 \<and>
         unat (sensor_index s) = (n div 4) mod NUM_SENSOR \<and>
         (\<forall>i<NUM_SENSOR. 16 \<le> n \<and> n mod 16 = 0 \<longrightarrow>
            sensors_off s i = (adcs ! (n - 16 + 4 * i)) (i + 1) \<and>
            sensors_on s i = (adcs ! (n - 16 + 4 * i + 2)) (i + 1))"
proof -
  have inv: "sm_inv s" unfolding s using init by (intro sm_inv_ticks sm_inv_init)
  note ph = run_phase [OF init, of adcs, folded s n]
  from ph have st: "emitter_status s = 2 \<or> emitter_status s = 3 \<longleftrightarrow> n mod 4 = 1 \<or> n mod 4 = 2"
    by (auto simp: word_unat_eq_iff)
  from inv st have g: "gpio s = (if n mod 4 = 1 \<or> n mod 4 = 2 then {emitter_pin (sensor_index s)} else {})"
    by (simp add: sm_inv_def)
  then have c: "card (gpio s) \<le> 1" by simp
  have r: "\<forall>i<NUM_SENSOR. 16 \<le> n \<and> n mod 16 = 0 \<longrightarrow>
            sensors_off s i = (adcs ! (n - 16 + 4 * i)) (i + 1) \<and>
            sensors_on s i = (adcs ! (n - 16 + 4 * i + 2)) (i + 1)"
    unfolding s n using round_complete [OF init, of adcs] by auto
  from c g ph r show ?thesis by (simp add: sensor_ids)
qed

theorem sensor_cycle_round_robin_witness:
  "emitter_status (example_detection NaN NaN NaN NaN) = 1 \<and>
   unat (sensor_index (example_detection NaN NaN NaN NaN)) = SENSOR_SIDE_LEFT_ID \<and>
   gpio (example_detection NaN NaN NaN NaN) = {} \<and>
   (1::nat) < NUM_SENSOR \<and> (16::nat) \<le> 16 \<and> (16::nat) mod 16 = 0 \<and>
   card (gpio (ticks (map (\<lambda>t ch. of_nat (100 * t + ch)) [0..<16])
                 (example_detection NaN NaN NaN NaN))) \<le> 1 \<and>
   unat (emitter_status (ticks (map (\<lambda>t ch. of_nat (100 * t + ch)) [0..<16])
                 (example_detection NaN NaN NaN NaN))) = 1 \<and>
   unat (sensor_index (ticks (map (\<lambda>t ch. of_nat (100 * t + ch)) [0..<16])
                 (example_detection NaN NaN NaN NaN))) = 0 \<and>
   sensors_off (ticks (map (\<lambda>t ch. of_nat (100 * t + ch)) [0..<16])
                 (example_detection NaN NaN NaN NaN)) 1 = 402 \<and>
   sensors_on (ticks (map (\<lambda>t ch. of_nat (100 * t + ch)) [0..<16])
                 (example_detection NaN NaN NaN NaN)) 1 = 602"
proof -
  have h1: "emitter_status (example_detection NaN NaN NaN NaN) = 1"
    and h2: "unat (sensor_index (example_detection NaN NaN NaN NaN)) = SENSOR_SIDE_LEFT_ID"
    and h3: "gpio (example_detection NaN NaN NaN NaN) = {}"
    by (simp_all add: example_detection_def sensor_ids)
  have len: "16 = length (map (\<lambda>t ch. (of_nat (100 * t + ch) :: 16 word)) [0..<16])" by simp
  have i: "(1::nat) < NUM_SENSOR" by (simp add: sensor_ids)
  from sensor_cycle_round_robin [OF h1 h2 h3 refl len] h1 h2 h3 i
  show ?thesis by (simp add: sensor_ids)
qed

section \<open>Wall detection and the side error\<close>

lemma fless_NaN: "\<not> fless NaN x" "\<not> fless x NaN"
  by (cases x; simp)+

text \<open>
  Claim C8. Each wall detection is the strict comparison of the distance with its threshold:
  0.90 cells for a side wall, 1.5 cells for both front sensors. On the values a distance can
  take, detection holds for a finite distance below the threshold and for \<open>-\<infinity>\<close>, and for
  nothing else. So a distance equal to the threshold, or NaN, gives no detection, whatever
  the rest of the state is.
\<close>

theorem wall_detection_strict:
  "(left_wall_detection c s \<longleftrightarrow>
      (case distance s SENSOR_SIDE_LEFT_ID of
         Finite x \<Rightarrow> x < 0.90 * CELL_DIMENSION c | MInf \<Rightarrow> True | PInf \<Rightarrow> False | NaN \<Rightarrow> False)) \<and>
   (right_wall_detection c s \<longleftrightarrow>
      (case distance s SENSOR_SIDE_RIGHT_ID of
         Finite x \<Rightarrow> x < 0.90 * CELL_DIMENSION c | MInf \<Rightarrow> True | PInf \<Rightarrow> False | NaN \<Rightarrow> False)) \<and>
   (front_wall_detection c s \<longleftrightarrow>
      (case distance s SENSOR_FRONT_LEFT_ID of
         Finite x \<Rightarrow> x < 1.5 * CELL_DIMENSION c | MInf \<Rightarrow> True | PInf \<Rightarrow> False | NaN \<Rightarrow> False) \<and>
      (case distance s SENSOR_FRONT_RIGHT_ID of
         Finite x \<Rightarrow> x < 1.5 * CELL_DIMENSION c | MInf \<Rightarrow> True | PInf \<Rightarrow> False | NaN \<Rightarrow> False)) \<and>
   \<not> left_wall_detection c
       (s\<lparr>distance := (distance s)(SENSOR_SIDE_LEFT_ID := Finite (0.90 * CELL_DIMENSION c))\<rparr>) \<and>
   \<not> left_wall_detection c (s\<lparr>distance := (distance s)(SENSOR_SIDE_LEFT_ID := NaN)\<rparr>) \<and>
   \<not> right_wall_detection c
       (s\<lparr>distance := (distance s)(SENSOR_SIDE_RIGHT_ID := Finite (0.90 * CELL_DIMENSION c))\<rparr>) \<and>
   \<not> right_wall_detection c (s\<lparr>distance := (distance s)(SENSOR_SIDE_RIGHT_ID := NaN)\<rparr>) \<and>
   \<not> front_wall_detection c
       (s\<lparr>distance := (distance s)(SENSOR_FRONT_LEFT_ID := Finite (1.5 * CELL_DIMENSION c))\<rparr>) \<and>
   \<not> front_wall_detection c (s\<lparr>distance := (distance s)(SENSOR_FRONT_LEFT_ID := NaN)\<rparr>) \<and>
   \<not> front_wall_detection c
       (s\<lparr>distance := (distance s)(SENSOR_FRONT_RIGHT_ID := Finite (1.5 * CELL_DIMENSION c))\<rparr>) \<and>
   \<not> front_wall_detection c (s\<lparr>distance := (distance s)(SENSOR_FRONT_RIGHT_ID := NaN)\<rparr>)"
proof -
  have l: "left_wall_detection c s \<longleftrightarrow>
      (case distance s SENSOR_SIDE_LEFT_ID of
         Finite x \<Rightarrow> x < 0.90 * CELL_DIMENSION c | MInf \<Rightarrow> True | PInf \<Rightarrow> False | NaN \<Rightarrow> False)" for s
    by (simp add: left_wall_detection_def SIDE_WALL_DETECTION_def mult.commute split: float.split)
  have r: "right_wall_detection c s \<longleftrightarrow>
      (case distance s SENSOR_SIDE_RIGHT_ID of
         Finite x \<Rightarrow> x < 0.90 * CELL_DIMENSION c | MInf \<Rightarrow> True | PInf \<Rightarrow> False | NaN \<Rightarrow> False)" for s
    by (simp add: right_wall_detection_def SIDE_WALL_DETECTION_def mult.commute split: float.split)
  have f: "front_wall_detection c s \<longleftrightarrow>
      (case distance s SENSOR_FRONT_LEFT_ID of
         Finite x \<Rightarrow> x < 1.5 * CELL_DIMENSION c | MInf \<Rightarrow> True | PInf \<Rightarrow> False | NaN \<Rightarrow> False) \<and>
      (case distance s SENSOR_FRONT_RIGHT_ID of
         Finite x \<Rightarrow> x < 1.5 * CELL_DIMENSION c | MInf \<Rightarrow> True | PInf \<Rightarrow> False | NaN \<Rightarrow> False)" for s
    by (simp add: front_wall_detection_def FRONT_WALL_DETECTION_def mult.commute split: float.split)
  show ?thesis
    unfolding l r f by (simp add: sensor_ids)
qed

text \<open>
  Claim C10. When the distance of the side-left or of the side-right sensor is NaN,
  \<open>get_side_sensors_error\<close> returns 0.
\<close>

theorem side_error_nan_is_zero:
  "distance s SENSOR_SIDE_LEFT_ID = NaN \<or> distance s SENSOR_SIDE_RIGHT_ID = NaN \<Longrightarrow>
   get_side_sensors_error c s = Finite 0"
  by (auto simp: get_side_sensors_error_def fless_NaN)

theorem side_error_nan_is_zero_witness:
  "(distance (example_detection NaN (Finite 0.05) (Finite 0.1) (Finite 0.1)) SENSOR_SIDE_LEFT_ID = NaN \<or>
    distance (example_detection NaN (Finite 0.05) (Finite 0.1) (Finite 0.1)) SENSOR_SIDE_RIGHT_ID = NaN) \<and>
   get_side_sensors_error example_config
     (example_detection NaN (Finite 0.05) (Finite 0.1) (Finite 0.1)) = Finite 0"
proof -
  have h: "distance (example_detection NaN (Finite 0.05) (Finite 0.1) (Finite 0.1)) SENSOR_SIDE_LEFT_ID = NaN \<or>
    distance (example_detection NaN (Finite 0.05) (Finite 0.1) (Finite 0.1)) SENSOR_SIDE_RIGHT_ID = NaN"
    by (simp add: example_detection_def sensor_ids)
  from side_error_nan_is_zero [OF h] h show ?thesis by simp
qed

text \<open>
  Claim C3, as stated, fails. With a cell of 0.18 m and the middle of the corridor at
  0.084 m, side distances 0.17 m (left) and 0.1 m (right) show the right wall only, and the
  error is 0, not 0.1 - 0.084. Side distances 0.1 m and 0.07 m show both walls, and the
  error is 0.07 - 0.084, not 0.
\<close>

theorem side_error_wall_presence_counterexample:
  "right_wall_detection example_config
     (example_detection (Finite 0.17) (Finite 0.1) (Finite 0.3) (Finite 0.3)) \<and>
   \<not> left_wall_detection example_config
     (example_detection (Finite 0.17) (Finite 0.1) (Finite 0.3) (Finite 0.3)) \<and>
   get_side_sensors_error example_config
     (example_detection (Finite 0.17) (Finite 0.1) (Finite 0.3) (Finite 0.3)) = Finite 0 \<and>
   fsub (distance (example_detection (Finite 0.17) (Finite 0.1) (Finite 0.3) (Finite 0.3))
           SENSOR_SIDE_RIGHT_ID)
        (Finite (MIDDLE_MAZE_DISTANCE example_config)) = Finite 0.016 \<and>
   left_wall_detection example_config
     (example_detection (Finite 0.1) (Finite 0.07) (Finite 0.3) (Finite 0.3)) \<and>
   right_wall_detection example_config
     (example_detection (Finite 0.1) (Finite 0.07) (Finite 0.3) (Finite 0.3)) \<and>
   get_side_sensors_error example_config
     (example_detection (Finite 0.1) (Finite 0.07) (Finite 0.3) (Finite 0.3)) = Finite (- 0.014)"
  by (simp add: example_config_def example_detection_def sensor_ids left_wall_detection_def
      right_wall_detection_def SIDE_WALL_DETECTION_def get_side_sensors_error_def fsub_def)

text \<open>
  Claim C3, amended. \<open>get_side_sensors_error\<close> compares the two side distances with
  \<open>MIDDLE_MAZE_DISTANCE\<close>, not with the wall threshold. It returns the right distance minus
  \<open>MIDDLE_MAZE_DISTANCE\<close> when the left distance is above and the right distance below
  \<open>MIDDLE_MAZE_DISTANCE\<close>; otherwise \<open>MIDDLE_MAZE_DISTANCE\<close> minus the left distance when
  the right distance is above and the left distance below it; otherwise 0. When
  \<open>MIDDLE_MAZE_DISTANCE\<close> is not above the side wall threshold, a nonzero error comes with
  at least one side wall detected.
\<close>

theorem side_error_by_middle_distance:
  "get_side_sensors_error c s =
     (if fless (Finite (MIDDLE_MAZE_DISTANCE c)) (get_side_left_distance s) \<and>
         fless (get_side_right_distance s) (Finite (MIDDLE_MAZE_DISTANCE c))
      then fsub (get_side_right_distance s) (Finite (MIDDLE_MAZE_DISTANCE c))
      else if fless (Finite (MIDDLE_MAZE_DISTANCE c)) (get_side_right_distance s) \<and>
              fless (get_side_left_distance s) (Finite (MIDDLE_MAZE_DISTANCE c))
      then fsub (Finite (MIDDLE_MAZE_DISTANCE c)) (get_side_left_distance s)
      else Finite 0) \<and>
   (\<forall>l r. get_side_left_distance s = Finite l \<and> get_side_right_distance s = Finite r \<longrightarrow>
      get_side_sensors_error c s =
        Finite (if MIDDLE_MAZE_DISTANCE c < l \<and> r < MIDDLE_MAZE_DISTANCE c
                then r - MIDDLE_MAZE_DISTANCE c
                else if MIDDLE_MAZE_DISTANCE c < r \<and> l < MIDDLE_MAZE_DISTANCE c
                then MIDDLE_MAZE_DISTANCE c - l
                else 0)) \<and>
   (MIDDLE_MAZE_DISTANCE c \<le> SIDE_WALL_DETECTION c \<and> get_side_sensors_error c s \<noteq> Finite 0 \<longrightarrow>
      left_wall_detection c s \<or> right_wall_detection c s)"
proof (intro conjI allI impI)
  show "get_side_sensors_error c s =
     (if fless (Finite (MIDDLE_MAZE_DISTANCE c)) (get_side_left_distance s) \<and>
         fless (get_side_right_distance s) (Finite (MIDDLE_MAZE_DISTANCE c))
      then fsub (get_side_right_distance s) (Finite (MIDDLE_MAZE_DISTANCE c))
      else if fless (Finite (MIDDLE_MAZE_DISTANCE c)) (get_side_right_distance s) \<and>
              fless (get_side_left_distance s) (Finite (MIDDLE_MAZE_DISTANCE c))
      then fsub (Finite (MIDDLE_MAZE_DISTANCE c)) (get_side_left_distance s)
      else Finite 0)"
    by (simp add: get_side_sensors_error_def get_side_left_distance_def
        get_side_right_distance_def)
next
  fix l r
  assume "get_side_left_distance s = Finite l \<and> get_side_right_distance s = Finite r"
  then show "get_side_sensors_error c s =
        Finite (if MIDDLE_MAZE_DISTANCE c < l \<and> r < MIDDLE_MAZE_DISTANCE c
                then r - MIDDLE_MAZE_DISTANCE c
                else if MIDDLE_MAZE_DISTANCE c < r \<and> l < MIDDLE_MAZE_DISTANCE c
                then MIDDLE_MAZE_DISTANCE c - l
                else 0)"
    by (simp add: get_side_sensors_error_def get_side_left_distance_def
        get_side_right_distance_def fsub_def)
next
  assume a: "MIDDLE_MAZE_DISTANCE c \<le> SIDE_WALL_DETECTION c \<and>
             get_side_sensors_error c s \<noteq> Finite 0"
  then show "left_wall_detection c s \<or> right_wall_detection c s"
    by (cases "distance s SENSOR_SIDE_LEFT_ID"; cases "distance s SENSOR_SIDE_RIGHT_ID";
        simp add: get_side_sensors_error_def left_wall_detection_def right_wall_detection_def
          split: if_splits)
qed

theorem side_error_by_middle_distance_witness:
  "get_side_left_distance (example_detection (Finite 0.1) (Finite 0.07) (Finite 0.3) (Finite 0.3))
     = Finite 0.1 \<and>
   get_side_right_distance (example_detection (Finite 0.1) (Finite 0.07) (Finite 0.3) (Finite 0.3))
     = Finite 0.07 \<and>
   MIDDLE_MAZE_DISTANCE example_config \<le> SIDE_WALL_DETECTION example_config \<and>
   get_side_sensors_error example_config
     (example_detection (Finite 0.1) (Finite 0.07) (Finite 0.3) (Finite 0.3)) = Finite (- 0.014) \<and>
   get_side_sensors_error example_config
     (example_detection (Finite 0.1) (Finite 0.07) (Finite 0.3) (Finite 0.3)) \<noteq> Finite 0 \<and>
   (left_wall_detection example_config
      (example_detection (Finite 0.1) (Finite 0.07) (Finite 0.3) (Finite 0.3)) \<or>
    right_wall_detection example_config
      (example_detection (Finite 0.1) (Finite 0.07) (Finite 0.3) (Finite 0.3)))"
proof -
  have h: "get_side_left_distance (example_detection (Finite 0.1) (Finite 0.07) (Finite 0.3) (Finite 0.3))
     = Finite 0.1 \<and>
   get_side_right_distance (example_detection (Finite 0.1) (Finite 0.07) (Finite 0.3) (Finite 0.3))
     = Finite 0.07"
    by (simp add: get_side_left_distance_def get_side_right_distance_def example_detection_def
        sensor_ids)
  have m: "MIDDLE_MAZE_DISTANCE example_config \<le> SIDE_WALL_DETECTION example_config"
    by (simp add: example_config_def SIDE_WALL_DETECTION_def)
  note t = side_error_by_middle_distance [of example_config
      "example_detection (Finite 0.1) (Finite 0.07) (Finite 0.3) (Finite 0.3)"]
  from t h have e: "get_side_sensors_error example_config
     (example_detection (Finite 0.1) (Finite 0.07) (Finite 0.3) (Finite 0.3)) = Finite (- 0.014)"
    by (simp add: example_config_def fsub_def)
  with t m h show ?thesis by simp
qed

section \<open>The distance estimate\<close>

lemma sensor_range: "[0..<NUM_SENSOR] = [0, 1, 2, 3]"
  by (simp add: NUM_SENSOR_def upt_rec)

lemma update_distance_readings_distance:
  assumes "i < NUM_SENSOR"
  shows "distance (update_distance_readings c s) i =
           (if i = SENSOR_SIDE_LEFT_ID \<or> i = SENSOR_SIDE_RIGHT_ID
            then fsub (fsub (fdiv (Finite (sensors_calibration_a c i))
                                  (flog (Finite (of_int (int (unat (sensors_on s i)) -
                                                         int (unat (sensors_off s i)))))))
                            (Finite (sensors_calibration_b c i)))
                      (calibration_factor s i)
            else fsub (fdiv (Finite (sensors_calibration_a c i))
                            (flog (Finite (of_int (int (unat (sensors_on s i)) -
                                                   int (unat (sensors_off s i)))))))
                      (Finite (sensors_calibration_b c i)))"
proof -
  from assms have "i = 0 \<or> i = 1 \<or> i = 2 \<or> i = 3" by (simp add: sensor_ids) arith
  then show ?thesis
    unfolding update_distance_readings_def sensor_range
    by (auto simp: update_distance_step_def Let_def sensor_ids)
qed

lemma update_distance_readings_frame:
  "calibration_factor (update_distance_readings c s) = calibration_factor s \<and>
   sensors_on (update_distance_readings c s) = sensors_on s \<and>
   sensors_off (update_distance_readings c s) = sensors_off s"
  unfolding update_distance_readings_def sensor_range
  by (simp add: update_distance_step_def Let_def sensor_ids)

lemma flog_of_gt_1: "1 < x \<Longrightarrow> flog (Finite x) = Finite (ln x) \<and> ln x \<noteq> 0"
  by simp

text \<open>
  Claim C1. After \<open>update_distance_readings\<close>, the distance of every sensor \<open>i\<close> is its
  calibration value \<open>a\<close> divided by the logarithm of the gap between the on and the off
  reading, minus \<open>b\<close>; for the side-left and the side-right sensor, and for no other, the
  drift offset of that sensor is subtracted as well. The drift offsets themselves are left
  as they were. When the gap is above 1 the logarithm is a positive number and the value is
  the real number \<open>a / ln gap - b\<close>.
\<close>

theorem distance_formula:
  assumes i: "i < NUM_SENSOR"
  shows "distance (update_distance_readings c s) i =
           (if i = SENSOR_SIDE_LEFT_ID \<or> i = SENSOR_SIDE_RIGHT_ID
            then fsub (fsub (fdiv (Finite (sensors_calibration_a c i))
                                  (flog (Finite (of_int (int (unat (sensors_on s i)) -
                                                         int (unat (sensors_off s i)))))))
                            (Finite (sensors_calibration_b c i)))
                      (calibration_factor s i)
            else fsub (fdiv (Finite (sensors_calibration_a c i))
                            (flog (Finite (of_int (int (unat (sensors_on s i)) -
                                                   int (unat (sensors_off s i)))))))
                      (Finite (sensors_calibration_b c i))) \<and>
         calibration_factor (update_distance_readings c s) = calibration_factor s \<and>
         (1 < int (unat (sensors_on s i)) - int (unat (sensors_off s i)) \<longrightarrow>
            distance (update_distance_readings c s) i =
              (if i = SENSOR_SIDE_LEFT_ID \<or> i = SENSOR_SIDE_RIGHT_ID
               then fsub (Finite (sensors_calibration_a c i /
                                    ln (of_int (int (unat (sensors_on s i)) -
                                                int (unat (sensors_off s i)))) -
                                  sensors_calibration_b c i))
                         (calibration_factor s i)
               else Finite (sensors_calibration_a c i /
                              ln (of_int (int (unat (sensors_on s i)) -
                                          int (unat (sensors_off s i)))) -
                            sensors_calibration_b c i)))"
proof (intro conjI impI)
  assume "1 < int (unat (sensors_on s i)) - int (unat (sensors_off s i))"
  then have "1 < (of_int (int (unat (sensors_on s i)) - int (unat (sensors_off s i))) :: real)"
    by linarith
  from flog_of_gt_1 [OF this] show "distance (update_distance_readings c s) i =
              (if i = SENSOR_SIDE_LEFT_ID \<or> i = SENSOR_SIDE_RIGHT_ID
               then fsub (Finite (sensors_calibration_a c i /
                                    ln (of_int (int (unat (sensors_on s i)) -
                                                int (unat (sensors_off s i)))) -
                                  sensors_calibration_b c i))
                         (calibration_factor s i)
               else Finite (sensors_calibration_a c i /
                              ln (of_int (int (unat (sensors_on s i)) -
                                          int (unat (sensors_off s i)))) -
                            sensors_calibration_b c i))"
    unfolding update_distance_readings_distance [OF i] by (simp add: fsub_def)
qed (simp_all add: update_distance_readings_distance [OF i] update_distance_readings_frame)


theorem distance_formula_witness:
  "SENSOR_SIDE_RIGHT_ID < NUM_SENSOR \<and>
   1 < int (unat (sensors_on ((example_detection NaN NaN NaN NaN)
                     \<lparr>sensors_on := (\<lambda>i. 400), sensors_off := (\<lambda>i. 100),
                      calibration_factor := (\<lambda>i. Finite 0.01)\<rparr>) SENSOR_SIDE_RIGHT_ID)) -
       int (unat (sensors_off ((example_detection NaN NaN NaN NaN)
                     \<lparr>sensors_on := (\<lambda>i. 400), sensors_off := (\<lambda>i. 100),
                      calibration_factor := (\<lambda>i. Finite 0.01)\<rparr>) SENSOR_SIDE_RIGHT_ID)) \<and>
   distance (update_distance_readings example_config
               ((example_detection NaN NaN NaN NaN)
                  \<lparr>sensors_on := (\<lambda>i. 400), sensors_off := (\<lambda>i. 100),
                   calibration_factor := (\<lambda>i. Finite 0.01)\<rparr>)) SENSOR_SIDE_RIGHT_ID =
     Finite (0.6 / ln 300 - 0.05 - 0.01)"
proof -
  have i: "SENSOR_SIDE_RIGHT_ID < NUM_SENSOR" by (simp add: sensor_ids)
  from distance_formula [OF i, of example_config
      "(example_detection NaN NaN NaN NaN)
         \<lparr>sensors_on := (\<lambda>i. 400), sensors_off := (\<lambda>i. 100),
          calibration_factor := (\<lambda>i. Finite 0.01)\<rparr>"] i
  show ?thesis by (simp add: example_config_def fsub_def)
qed

text \<open>
  Claim C2, as stated, fails when the two readings are equal. The gap is 0, its logarithm is
  \<open>-\<infinity>\<close>, the quotient is 0 and the distance is \<open>- b\<close>: finite. Here both readings of the
  front-left sensor are 0 and \<open>b\<close> is 0.05.
\<close>

theorem distance_nonpositive_gap_counterexample:
  "int (unat (sensors_on (example_detection NaN NaN NaN NaN) SENSOR_FRONT_LEFT_ID)) -
   int (unat (sensors_off (example_detection NaN NaN NaN NaN) SENSOR_FRONT_LEFT_ID)) \<le> 0 \<and>
   distance (update_distance_readings example_config (example_detection NaN NaN NaN NaN))
     SENSOR_FRONT_LEFT_ID = Finite (- 0.05) \<and>
   is_finite (distance (update_distance_readings example_config
                          (example_detection NaN NaN NaN NaN)) SENSOR_FRONT_LEFT_ID)"
proof -
  have i: "SENSOR_FRONT_LEFT_ID < NUM_SENSOR" by (simp add: sensor_ids)
  show ?thesis unfolding update_distance_readings_distance [OF i]
    by (simp add: example_config_def example_detection_def sensor_ids fsub_def)
qed

lemma fsub_NaN: "fsub NaN x = NaN"
  by (simp add: fsub_def)

text \<open>
  Claim C2, amended. For every sensor, a negative gap between the on and the off reading
  gives the distance NaN. A gap of 0 gives the distance \<open>- b\<close>, less the drift offset for
  the two side sensors.
\<close>

theorem distance_nonpositive_gap:
  assumes i: "i < NUM_SENSOR"
  shows "(int (unat (sensors_on s i)) - int (unat (sensors_off s i)) < 0 \<longrightarrow>
            distance (update_distance_readings c s) i = NaN) \<and>
         (int (unat (sensors_on s i)) - int (unat (sensors_off s i)) = 0 \<longrightarrow>
            distance (update_distance_readings c s) i =
              (if i = SENSOR_SIDE_LEFT_ID \<or> i = SENSOR_SIDE_RIGHT_ID
               then fsub (Finite (- sensors_calibration_b c i)) (calibration_factor s i)
               else Finite (- sensors_calibration_b c i)))"
proof -
  define x where
    "x = flog (Finite (of_int (int (unat (sensors_on s i)) - int (unat (sensors_off s i)))))"
  note d = update_distance_readings_distance [OF i, of c s, folded x_def]
  have neg: "x = NaN" if "int (unat (sensors_on s i)) - int (unat (sensors_off s i)) < 0"
  proof -
    from that
    have "(of_int (int (unat (sensors_on s i)) - int (unat (sensors_off s i))) :: real) < 0"
      by (simp only: of_int_less_0_iff)
    then show ?thesis unfolding x_def by (simp only: flog.simps if_True)
  qed
  have zero: "x = MInf" if "int (unat (sensors_on s i)) - int (unat (sensors_off s i)) = 0"
    unfolding x_def that by (simp only: flog.simps of_int_0 less_irrefl if_False if_True simp_thms)
  have a: "distance (update_distance_readings c s) i = NaN" if "x = NaN"
    unfolding d that by (simp add: fsub_NaN)
  have b: "distance (update_distance_readings c s) i =
              (if i = SENSOR_SIDE_LEFT_ID \<or> i = SENSOR_SIDE_RIGHT_ID
               then fsub (Finite (- sensors_calibration_b c i)) (calibration_factor s i)
               else Finite (- sensors_calibration_b c i))" if "x = MInf"
    unfolding d that by (simp add: fsub_def)
  from neg zero a b show ?thesis by blast
qed

theorem distance_nonpositive_gap_witness:
  "SENSOR_SIDE_LEFT_ID < NUM_SENSOR \<and> SENSOR_FRONT_RIGHT_ID < NUM_SENSOR \<and>
   int (unat (sensors_on ((example_detection NaN NaN NaN NaN)
                \<lparr>sensors_on := (\<lambda>i. 90), sensors_off := (\<lambda>i. 100)\<rparr>) SENSOR_SIDE_LEFT_ID)) -
   int (unat (sensors_off ((example_detection NaN NaN NaN NaN)
                \<lparr>sensors_on := (\<lambda>i. 90), sensors_off := (\<lambda>i. 100)\<rparr>) SENSOR_SIDE_LEFT_ID)) < 0 \<and>
   distance (update_distance_readings example_config
               ((example_detection NaN NaN NaN NaN)
                  \<lparr>sensors_on := (\<lambda>i. 90), sensors_off := (\<lambda>i. 100)\<rparr>)) SENSOR_SIDE_LEFT_ID = NaN \<and>
   int (unat (sensors_on ((example_detection NaN NaN NaN NaN)
                \<lparr>sensors_on := (\<lambda>i. 100), sensors_off := (\<lambda>i. 100)\<rparr>) SENSOR_FRONT_RIGHT_ID)) -
   int (unat (sensors_off ((example_detection NaN NaN NaN NaN)
                \<lparr>sensors_on := (\<lambda>i. 100), sensors_off := (\<lambda>i. 100)\<rparr>) SENSOR_FRONT_RIGHT_ID)) = 0 \<and>
   distance (update_distance_readings example_config
               ((example_detection NaN NaN NaN NaN)
                  \<lparr>sensors_on := (\<lambda>i. 100), sensors_off := (\<lambda>i. 100)\<rparr>)) SENSOR_FRONT_RIGHT_ID
     = Finite (- 0.05)"
proof -
  have i: "SENSOR_SIDE_LEFT_ID < NUM_SENSOR" and j: "SENSOR_FRONT_RIGHT_ID < NUM_SENSOR"
    by (simp_all add: sensor_ids)
  from distance_nonpositive_gap [OF i, of
      "(example_detection NaN NaN NaN NaN)\<lparr>sensors_on := (\<lambda>i. 90), sensors_off := (\<lambda>i. 100)\<rparr>"
      example_config]
    distance_nonpositive_gap [OF j, of
      "(example_detection NaN NaN NaN NaN)\<lparr>sensors_on := (\<lambda>i. 100), sensors_off := (\<lambda>i. 100)\<rparr>"
      example_config] i j
  show ?thesis by (simp add: example_config_def sensor_ids)
qed

section \<open>Evaluating the rounding\<close>

lemmas round_eval =
  round_to_def round_at_def binade_def scale_up.simps scale_down.simps pow2_def
  round_half_even_def

lemma trunc_0: "trunc 0 = 0"
  by (simp add: trunc_def)

lemma round_to_0: "round_to p emin emax 0 = Finite 0"
  by (simp add: round_to_def)

lemma fadd_zero: "fadd x (Finite 0) = x"
  by (cases x) simp_all

section \<open>Drift calibration\<close>

lemma calibration_loop_split:
  "fold (\<lambda>i (left_temp, right_temp).
           (to_float (fadd left_temp (readings i SENSOR_SIDE_LEFT_ID)),
            to_float (fadd right_temp (readings i SENSOR_SIDE_RIGHT_ID))))
        [0..<n] (a, b) =
   (foldl (\<lambda>acc x. to_float (fadd acc x)) a (map (\<lambda>i. readings i SENSOR_SIDE_LEFT_ID) [0..<n]),
    foldl (\<lambda>acc x. to_float (fadd acc x)) b (map (\<lambda>i. readings i SENSOR_SIDE_RIGHT_ID) [0..<n]))"
  by (induction n) simp_all

lemma calibration_sums_float_sum:
  "calibration_sums readings =
     (float_sum (map (\<lambda>i. readings i SENSOR_SIDE_LEFT_ID) [0..<SIDE_CALIBRATION_READINGS]),
      float_sum (map (\<lambda>i. readings i SENSOR_SIDE_RIGHT_ID) [0..<SIDE_CALIBRATION_READINGS]))"
  by (simp add: calibration_sums_def float_sum_def calibration_loop_split)

lemma side_sensors_calibration_factor:
  "calibration_factor (side_sensors_calibration c readings s) =
     (calibration_factor s)
       (SENSOR_SIDE_LEFT_ID :=
          to_float (to_double
            (fadd (calibration_factor s SENSOR_SIDE_LEFT_ID)
               (drift_correction c
                  (map (\<lambda>i. readings i SENSOR_SIDE_LEFT_ID) [0..<SIDE_CALIBRATION_READINGS])))),
        SENSOR_SIDE_RIGHT_ID :=
          to_float (to_double
            (fadd (calibration_factor s SENSOR_SIDE_RIGHT_ID)
               (drift_correction c
                  (map (\<lambda>i. readings i SENSOR_SIDE_RIGHT_ID) [0..<SIDE_CALIBRATION_READINGS])))))"
  by (simp add: side_sensors_calibration_def calibration_sums_float_sum drift_correction_def
      SENSOR_SIDE_LEFT_ID_def SENSOR_SIDE_RIGHT_ID_def)

text \<open>
  Claim C6, amended. \<open>side_sensors_calibration\<close> takes 20 samples of each side distance.
  To the drift offset each side already has it adds the mean of that side's samples, summed
  and divided in \<^verbatim>\<open>float\<close>, minus \<open>MIDDLE_MAZE_DISTANCE\<close>; the new offset is the old one
  plus this term, rounded, never the term alone. An offset stays as it was when the term of
  its side is 0. A second calibration adds its own term to the result of the first.
\<close>

theorem drift_calibration_rounded:
  "SIDE_CALIBRATION_READINGS = 20 \<and>
   calibration_factor (side_sensors_calibration c readings s) =
     (calibration_factor s)
       (SENSOR_SIDE_LEFT_ID :=
          to_float (to_double
            (fadd (calibration_factor s SENSOR_SIDE_LEFT_ID)
               (drift_correction c (map (\<lambda>i. readings i SENSOR_SIDE_LEFT_ID) [0..<20])))),
        SENSOR_SIDE_RIGHT_ID :=
          to_float (to_double
            (fadd (calibration_factor s SENSOR_SIDE_RIGHT_ID)
               (drift_correction c (map (\<lambda>i. readings i SENSOR_SIDE_RIGHT_ID) [0..<20]))))) \<and>
   (drift_correction c (map (\<lambda>i. readings i SENSOR_SIDE_LEFT_ID) [0..<20]) = Finite 0 \<and>
    to_float (to_double (calibration_factor s SENSOR_SIDE_LEFT_ID)) =
      calibration_factor s SENSOR_SIDE_LEFT_ID \<longrightarrow>
      calibration_factor (side_sensors_calibration c readings s) SENSOR_SIDE_LEFT_ID =
        calibration_factor s SENSOR_SIDE_LEFT_ID) \<and>
   (drift_correction c (map (\<lambda>i. readings i SENSOR_SIDE_RIGHT_ID) [0..<20]) = Finite 0 \<and>
    to_float (to_double (calibration_factor s SENSOR_SIDE_RIGHT_ID)) =
      calibration_factor s SENSOR_SIDE_RIGHT_ID \<longrightarrow>
      calibration_factor (side_sensors_calibration c readings s) SENSOR_SIDE_RIGHT_ID =
        calibration_factor s SENSOR_SIDE_RIGHT_ID) \<and>
   calibration_factor
       (side_sensors_calibration c readings2 (side_sensors_calibration c readings s))
       SENSOR_SIDE_LEFT_ID =
     to_float (to_double
       (fadd (to_float (to_double
                (fadd (calibration_factor s SENSOR_SIDE_LEFT_ID)
                   (drift_correction c (map (\<lambda>i. readings i SENSOR_SIDE_LEFT_ID) [0..<20])))))
             (drift_correction c (map (\<lambda>i. readings2 i SENSOR_SIDE_LEFT_ID) [0..<20])))) \<and>
   calibration_factor
       (side_sensors_calibration c readings2 (side_sensors_calibration c readings s))
       SENSOR_SIDE_RIGHT_ID =
     to_float (to_double
       (fadd (to_float (to_double
                (fadd (calibration_factor s SENSOR_SIDE_RIGHT_ID)
                   (drift_correction c (map (\<lambda>i. readings i SENSOR_SIDE_RIGHT_ID) [0..<20])))))
             (drift_correction c (map (\<lambda>i. readings2 i SENSOR_SIDE_RIGHT_ID) [0..<20]))))"
proof -
  have n: "SIDE_CALIBRATION_READINGS = 20" by (simp add: SIDE_CALIBRATION_READINGS_def)
  note one = side_sensors_calibration_factor [of c readings s, unfolded n]
  note two = side_sensors_calibration_factor
    [of c readings2 "side_sensors_calibration c readings s", unfolded n]
  have l: "calibration_factor (side_sensors_calibration c readings s) SENSOR_SIDE_LEFT_ID =
        calibration_factor s SENSOR_SIDE_LEFT_ID"
    if "drift_correction c (map (\<lambda>i. readings i SENSOR_SIDE_LEFT_ID) [0..<20]) = Finite 0 \<and>
        to_float (to_double (calibration_factor s SENSOR_SIDE_LEFT_ID)) =
          calibration_factor s SENSOR_SIDE_LEFT_ID"
    unfolding one using that
    by (simp add: fadd_zero SENSOR_SIDE_LEFT_ID_def SENSOR_SIDE_RIGHT_ID_def)
  have r: "calibration_factor (side_sensors_calibration c readings s) SENSOR_SIDE_RIGHT_ID =
        calibration_factor s SENSOR_SIDE_RIGHT_ID"
    if "drift_correction c (map (\<lambda>i. readings i SENSOR_SIDE_RIGHT_ID) [0..<20]) = Finite 0 \<and>
        to_float (to_double (calibration_factor s SENSOR_SIDE_RIGHT_ID)) =
          calibration_factor s SENSOR_SIDE_RIGHT_ID"
    unfolding one using that
    by (simp add: fadd_zero SENSOR_SIDE_LEFT_ID_def SENSOR_SIDE_RIGHT_ID_def)
  have acc: "calibration_factor
       (side_sensors_calibration c readings2 (side_sensors_calibration c readings s))
       SENSOR_SIDE_LEFT_ID =
     to_float (to_double
       (fadd (to_float (to_double
                (fadd (calibration_factor s SENSOR_SIDE_LEFT_ID)
                   (drift_correction c (map (\<lambda>i. readings i SENSOR_SIDE_LEFT_ID) [0..<20])))))
             (drift_correction c (map (\<lambda>i. readings2 i SENSOR_SIDE_LEFT_ID) [0..<20]))))"
    "calibration_factor
       (side_sensors_calibration c readings2 (side_sensors_calibration c readings s))
       SENSOR_SIDE_RIGHT_ID =
     to_float (to_double
       (fadd (to_float (to_double
                (fadd (calibration_factor s SENSOR_SIDE_RIGHT_ID)
                   (drift_correction c (map (\<lambda>i. readings i SENSOR_SIDE_RIGHT_ID) [0..<20])))))
             (drift_correction c (map (\<lambda>i. readings2 i SENSOR_SIDE_RIGHT_ID) [0..<20]))))"
    unfolding two unfolding one
    by (simp_all add: SENSOR_SIDE_LEFT_ID_def SENSOR_SIDE_RIGHT_ID_def)
  show ?thesis
    by (intro conjI impI) (rule n, rule one, erule l, erule r, rule acc(1), rule acc(2))
qed


lemmas sum_eval =
  drift_correction_def float_sum_def SIDE_CALIBRATION_READINGS_def upt_rec fsub_def

text \<open>
  Claim C6, as stated, fails: samples that all equal \<open>MIDDLE_MAZE_DISTANCE\<close> can move the
  offsets. Take for \<open>MIDDLE_MAZE_DISTANCE\<close> the \<^verbatim>\<open>float\<close> next to 0.085 and 20 samples
  of that value on both sides. The rounded additions give a mean one step of the format
  above the samples, and both offsets go from 0 to \<open>2\<^sup>-\<^sup>2\<^sup>7\<close>.
\<close>

theorem drift_calibration_unchanged_counterexample:
  "to_float (Finite 0.085) = Finite (11408507 / 134217728) \<and>
   to_double (Finite (MIDDLE_MAZE_DISTANCE
       (example_config\<lparr>MIDDLE_MAZE_DISTANCE := 11408507 / 134217728\<rparr>))) =
     Finite (11408507 / 134217728) \<and>
   calibration_factor (example_detection NaN NaN NaN NaN) SENSOR_SIDE_LEFT_ID = Finite 0 \<and>
   calibration_factor
     (side_sensors_calibration (example_config\<lparr>MIDDLE_MAZE_DISTANCE := 11408507 / 134217728\<rparr>)
        (\<lambda>i j. Finite (11408507 / 134217728)) (example_detection NaN NaN NaN NaN))
     SENSOR_SIDE_LEFT_ID = Finite (1 / 134217728) \<and>
   calibration_factor (example_detection NaN NaN NaN NaN) SENSOR_SIDE_RIGHT_ID = Finite 0 \<and>
   calibration_factor
     (side_sensors_calibration (example_config\<lparr>MIDDLE_MAZE_DISTANCE := 11408507 / 134217728\<rparr>)
        (\<lambda>i j. Finite (11408507 / 134217728)) (example_detection NaN NaN NaN NaN))
     SENSOR_SIDE_RIGHT_ID = Finite (1 / 134217728)"
proof -
  have f: "to_float (Finite 0.085) = Finite (11408507 / 134217728)"
    by (simp add: round_eval)
  have m: "to_double (Finite (MIDDLE_MAZE_DISTANCE
       (example_config\<lparr>MIDDLE_MAZE_DISTANCE := 11408507 / 134217728\<rparr>))) =
     Finite (11408507 / 134217728)"
    by (simp add: example_config_def round_eval)
  have d: "drift_correction (example_config\<lparr>MIDDLE_MAZE_DISTANCE := 11408507 / 134217728\<rparr>)
             (map (\<lambda>i. Finite (11408507 / 134217728)) [0..<SIDE_CALIBRATION_READINGS]) =
           Finite (1 / 134217728)"
    by (simp add: sum_eval example_config_def round_eval)
  have z: "calibration_factor (example_detection NaN NaN NaN NaN) = (\<lambda>i. Finite 0)"
    by (simp add: example_detection_def)
  have s: "to_float (to_double (fadd (Finite 0) (Finite (1 / 134217728)))) =
           Finite (1 / 134217728)"
    by (simp add: round_eval)
  show ?thesis
    unfolding side_sensors_calibration_factor d z s f m
    by (simp add: sensor_ids)
qed

theorem drift_calibration_rounded_witness:
  "drift_correction (example_config\<lparr>MIDDLE_MAZE_DISTANCE := 0.0625\<rparr>)
     (map (\<lambda>i. Finite 0.0625) [0..<20]) = Finite 0 \<and>
   to_float (to_double (calibration_factor (example_detection NaN NaN NaN NaN)
                          SENSOR_SIDE_LEFT_ID)) =
     calibration_factor (example_detection NaN NaN NaN NaN) SENSOR_SIDE_LEFT_ID \<and>
   calibration_factor
     (side_sensors_calibration (example_config\<lparr>MIDDLE_MAZE_DISTANCE := 0.0625\<rparr>)
        (\<lambda>i j. Finite 0.0625) (example_detection NaN NaN NaN NaN)) SENSOR_SIDE_LEFT_ID =
     calibration_factor (example_detection NaN NaN NaN NaN) SENSOR_SIDE_LEFT_ID \<and>
   calibration_factor
     (side_sensors_calibration (example_config\<lparr>MIDDLE_MAZE_DISTANCE := 0.0625\<rparr>)
        (\<lambda>i j. Finite 0.0625) (example_detection NaN NaN NaN NaN)) SENSOR_SIDE_RIGHT_ID =
     calibration_factor (example_detection NaN NaN NaN NaN) SENSOR_SIDE_RIGHT_ID \<and>
   calibration_factor
     (side_sensors_calibration (example_config\<lparr>MIDDLE_MAZE_DISTANCE := 0.0625\<rparr>)
        (\<lambda>i j. Finite 0.125)
        (side_sensors_calibration (example_config\<lparr>MIDDLE_MAZE_DISTANCE := 0.0625\<rparr>)
           (\<lambda>i j. Finite 0.125) (example_detection NaN NaN NaN NaN)))
     SENSOR_SIDE_LEFT_ID = Finite 0.125"
proof -
  have d0: "drift_correction (example_config\<lparr>MIDDLE_MAZE_DISTANCE := 0.0625\<rparr>)
     (map (\<lambda>i. Finite 0.0625) [0..<20]) = Finite 0"
    by (simp add: sum_eval example_config_def round_eval)
  have d1: "drift_correction (example_config\<lparr>MIDDLE_MAZE_DISTANCE := 0.0625\<rparr>)
     (map (\<lambda>i. Finite 0.125) [0..<20]) = Finite 0.0625"
    by (simp add: sum_eval example_config_def round_eval)
  have z: "calibration_factor (example_detection NaN NaN NaN NaN) SENSOR_SIDE_LEFT_ID = Finite 0"
    "calibration_factor (example_detection NaN NaN NaN NaN) SENSOR_SIDE_RIGHT_ID = Finite 0"
    by (simp_all add: example_detection_def)
  have r0: "to_float (to_double (Finite 0)) = Finite 0"
    by (simp add: round_eval)
  have r1: "to_float (to_double (fadd (Finite 0) (Finite 0.0625))) = Finite 0.0625"
    "to_float (to_double (fadd (Finite 0.0625) (Finite 0.0625))) = Finite 0.125"
    by (simp_all add: round_eval)
  note a = drift_calibration_rounded [of "example_config\<lparr>MIDDLE_MAZE_DISTANCE := 0.0625\<rparr>"
      "\<lambda>i j. Finite 0.0625" "example_detection NaN NaN NaN NaN" "\<lambda>i j. Finite 0.0625"]
  note b = drift_calibration_rounded [of "example_config\<lparr>MIDDLE_MAZE_DISTANCE := 0.0625\<rparr>"
      "\<lambda>i j. Finite 0.125" "example_detection NaN NaN NaN NaN" "\<lambda>i j. Finite 0.125"]
  from a d0 z r0 have u: "calibration_factor
     (side_sensors_calibration (example_config\<lparr>MIDDLE_MAZE_DISTANCE := 0.0625\<rparr>)
        (\<lambda>i j. Finite 0.0625) (example_detection NaN NaN NaN NaN)) SENSOR_SIDE_LEFT_ID =
     calibration_factor (example_detection NaN NaN NaN NaN) SENSOR_SIDE_LEFT_ID"
    "calibration_factor
     (side_sensors_calibration (example_config\<lparr>MIDDLE_MAZE_DISTANCE := 0.0625\<rparr>)
        (\<lambda>i j. Finite 0.0625) (example_detection NaN NaN NaN NaN)) SENSOR_SIDE_RIGHT_ID =
     calibration_factor (example_detection NaN NaN NaN NaN) SENSOR_SIDE_RIGHT_ID"
    by simp_all
  from b have "calibration_factor
     (side_sensors_calibration (example_config\<lparr>MIDDLE_MAZE_DISTANCE := 0.0625\<rparr>)
        (\<lambda>i j. Finite 0.125)
        (side_sensors_calibration (example_config\<lparr>MIDDLE_MAZE_DISTANCE := 0.0625\<rparr>)
           (\<lambda>i j. Finite 0.125) (example_detection NaN NaN NaN NaN)))
     SENSOR_SIDE_LEFT_ID =
     to_float (to_double
       (fadd (to_float (to_double
                (fadd (calibration_factor (example_detection NaN NaN NaN NaN) SENSOR_SIDE_LEFT_ID)
                   (drift_correction (example_config\<lparr>MIDDLE_MAZE_DISTANCE := 0.0625\<rparr>)
                      (map (\<lambda>i. Finite 0.125) [0..<20])))))
             (drift_correction (example_config\<lparr>MIDDLE_MAZE_DISTANCE := 0.0625\<rparr>)
                (map (\<lambda>i. Finite 0.125) [0..<20]))))"
    by (elim conjE)
  then have v: "calibration_factor
     (side_sensors_calibration (example_config\<lparr>MIDDLE_MAZE_DISTANCE := 0.0625\<rparr>)
        (\<lambda>i j. Finite 0.125)
        (side_sensors_calibration (example_config\<lparr>MIDDLE_MAZE_DISTANCE := 0.0625\<rparr>)
           (\<lambda>i j. Finite 0.125) (example_detection NaN NaN NaN NaN)))
     SENSOR_SIDE_LEFT_ID = Finite 0.125"
    unfolding d1 z r1 .
  from d0 z r0 u v show ?thesis by simp
qed

section \<open>Entering a cell\<close>

lemmas example_eval =
  example_config_def example_detection_def example_motion_def sensor_ids
  front_wall_detection_def FRONT_WALL_DETECTION_def get_front_wall_distance_def fsub_def


lemma entered_next_cell_no_front_wall:
  "\<not> front_wall_detection c d \<Longrightarrow>
   entered_next_cell c d encoder m =
     Some (m\<lparr>current_cell_start_micrometers := encoder, cell_shift := Finite 0,
             led_left := \<not> led_left m\<rparr>)"
  by (simp add: entered_next_cell_def)

lemma entered_next_cell_front_wall:
  assumes "front_wall_detection c d"
    and "to_double (fmul (to_double (fsub (get_front_wall_distance d)
                                         (to_double (Finite (CELL_DIMENSION c)))))
                         (to_double (Finite (MICROMETERS_PER_METER c)))) = Finite x"
    and "int32_range (trunc x)" and "int32_range (encoder + trunc x)"
  shows "entered_next_cell c d encoder m =
     Some (m\<lparr>current_cell_start_micrometers := encoder + trunc x,
             cell_shift := Finite 0, led_left := \<not> led_left m\<rparr>)"
  using assms by (simp add: entered_next_cell_def int32_range_def)

text \<open>
  Claim C5, as stated, fails at the measured distance for \<open>CELL_DIMENSION + 0.01\<close>. With a
  cell of 0.18 m and front distances 0.2 and 0.18 as \<^verbatim>\<open>float\<close> values, a front wall is
  detected and the front wall distance is the \<^verbatim>\<open>float\<close> next to 0.19. The product with a
  million micrometers per meter is just below 10000 and the cast cuts it to 9999: from the
  odometry position 5000000 the cell start becomes 5009999, not 5010000.
\<close>

theorem entered_next_cell_rounded_counterexample:
  "front_wall_detection example_config
     (example_detection NaN NaN (to_float (Finite 0.2)) (to_float (Finite 0.18))) \<and>
   get_front_wall_distance
     (example_detection NaN NaN (to_float (Finite 0.2)) (to_float (Finite 0.18))) =
     to_float (Finite (CELL_DIMENSION example_config + 0.01)) \<and>
   map_option current_cell_start_micrometers
     (entered_next_cell example_config
        (example_detection NaN NaN (to_float (Finite 0.2)) (to_float (Finite 0.18)))
        5000000 example_motion) = Some 5009999 \<and>
   5000000 + 0.01 * MICROMETERS_PER_METER example_config = 5010000"
  by (simp add: example_eval entered_next_cell_def int32_range_def trunc_def round_eval)


text \<open>
  Claim C5, amended. \<open>entered_next_cell\<close> stores the odometry position as the start of the
  cell, sets \<open>cell_shift\<close> to 0 and toggles the LED. With a front wall detected it first
  adds to the start the front wall distance minus \<open>CELL_DIMENSION\<close>, times
  \<open>MICROMETERS_PER_METER\<close>, computed in \<^verbatim>\<open>double\<close> and cut to whole micrometers by the
  cast (defined when the cast and the sum fit \<^verbatim>\<open>int32_t\<close>). The correction is 0 when the
  front wall distance is \<open>CELL_DIMENSION\<close>.
\<close>

theorem entered_next_cell_rounded:
  "(\<not> front_wall_detection c d \<longrightarrow>
      entered_next_cell c d encoder m =
        Some (m\<lparr>current_cell_start_micrometers := encoder, cell_shift := Finite 0,
                led_left := \<not> led_left m\<rparr>)) \<and>
   (front_wall_detection c d \<and>
    to_double (fmul (to_double (fsub (get_front_wall_distance d)
                                     (to_double (Finite (CELL_DIMENSION c)))))
                    (to_double (Finite (MICROMETERS_PER_METER c)))) = Finite x \<and>
    int32_range (trunc x) \<and> int32_range (encoder + trunc x) \<longrightarrow>
      entered_next_cell c d encoder m =
        Some (m\<lparr>current_cell_start_micrometers := encoder + trunc x,
                cell_shift := Finite 0, led_left := \<not> led_left m\<rparr>)) \<and>
   (front_wall_detection c d \<and> get_front_wall_distance d = Finite w \<and>
    to_double (Finite (CELL_DIMENSION c)) = Finite w \<and>
    to_double (Finite (MICROMETERS_PER_METER c)) = Finite k \<and> int32_range encoder \<longrightarrow>
      entered_next_cell c d encoder m =
        Some (m\<lparr>current_cell_start_micrometers := encoder, cell_shift := Finite 0,
                led_left := \<not> led_left m\<rparr>))"
proof (intro conjI impI)
  assume "\<not> front_wall_detection c d"
  then show "entered_next_cell c d encoder m =
        Some (m\<lparr>current_cell_start_micrometers := encoder, cell_shift := Finite 0,
                led_left := \<not> led_left m\<rparr>)"
    by (rule entered_next_cell_no_front_wall)
next
  assume "front_wall_detection c d \<and>
    to_double (fmul (to_double (fsub (get_front_wall_distance d)
                                     (to_double (Finite (CELL_DIMENSION c)))))
                    (to_double (Finite (MICROMETERS_PER_METER c)))) = Finite x \<and>
    int32_range (trunc x) \<and> int32_range (encoder + trunc x)"
  then show "entered_next_cell c d encoder m =
        Some (m\<lparr>current_cell_start_micrometers := encoder + trunc x,
                cell_shift := Finite 0, led_left := \<not> led_left m\<rparr>)"
    by (intro entered_next_cell_front_wall) simp_all
next
  assume a: "front_wall_detection c d \<and> get_front_wall_distance d = Finite w \<and>
    to_double (Finite (CELL_DIMENSION c)) = Finite w \<and>
    to_double (Finite (MICROMETERS_PER_METER c)) = Finite k \<and> int32_range encoder"
  then have "fsub (get_front_wall_distance d) (to_double (Finite (CELL_DIMENSION c))) = Finite 0"
    by (simp add: fsub_def)
  with a have v: "to_double (fmul (to_double (fsub (get_front_wall_distance d)
                                     (to_double (Finite (CELL_DIMENSION c)))))
                    (to_double (Finite (MICROMETERS_PER_METER c)))) = Finite 0"
    by (simp add: round_to_0)
  from a have r: "int32_range (trunc 0)" "int32_range (encoder + trunc 0)"
    by (simp_all add: trunc_0 int32_range_def)
  from a have f: "front_wall_detection c d" by simp
  from entered_next_cell_front_wall [OF f v r]
  show "entered_next_cell c d encoder m =
        Some (m\<lparr>current_cell_start_micrometers := encoder, cell_shift := Finite 0,
                led_left := \<not> led_left m\<rparr>)"
    by (simp add: trunc_0)
qed

theorem entered_next_cell_rounded_witness:
  "\<not> front_wall_detection example_config
       (example_detection NaN NaN (Finite 0.3) (Finite 0.3)) \<and>
   map_option current_cell_start_micrometers
     (entered_next_cell example_config (example_detection NaN NaN (Finite 0.3) (Finite 0.3))
        5000000 example_motion) = Some 5000000 \<and>
   front_wall_detection example_config
       (example_detection NaN NaN (to_float (Finite 0.18)) (to_float (Finite 0.18))) \<and>
   trunc (2013265921875 / 281474976710656) = 0 \<and>
   map_option current_cell_start_micrometers
     (entered_next_cell example_config
        (example_detection NaN NaN (to_float (Finite 0.18)) (to_float (Finite 0.18)))
        5000000 example_motion) = Some 5000000 \<and>
   front_wall_detection example_config
       (example_detection NaN NaN (to_float (Finite 0.2)) (to_float (Finite 0.18))) \<and>
   trunc (1374389207040001 / 137438953472) = 9999 \<and>
   map_option current_cell_start_micrometers
     (entered_next_cell example_config
        (example_detection NaN NaN (to_float (Finite 0.2)) (to_float (Finite 0.18)))
        5000000 example_motion) = Some 5009999 \<and>
   map_option cell_shift
     (entered_next_cell example_config
        (example_detection NaN NaN (to_float (Finite 0.2)) (to_float (Finite 0.18)))
        5000000 example_motion) = Some (Finite 0) \<and>
   front_wall_detection (example_config\<lparr>CELL_DIMENSION := 0.25\<rparr>)
       (example_detection NaN NaN (Finite 0.25) (Finite 0.25)) \<and>
   get_front_wall_distance (example_detection NaN NaN (Finite 0.25) (Finite 0.25))
     = Finite 0.25 \<and>
   int32_range 5000000 \<and>
   map_option current_cell_start_micrometers
     (entered_next_cell (example_config\<lparr>CELL_DIMENSION := 0.25\<rparr>)
        (example_detection NaN NaN (Finite 0.25) (Finite 0.25))
        5000000 example_motion) = Some 5000000 \<and>
   front_wall_detection (example_config\<lparr>CELL_DIMENSION := 0.25\<rparr>)
       (example_detection NaN NaN (Finite 0.25) (Finite (12582911 / 33554432))) \<and>
   trunc 62500 = 62500 \<and>
   map_option current_cell_start_micrometers
     (entered_next_cell (example_config\<lparr>CELL_DIMENSION := 0.25\<rparr>)
        (example_detection NaN NaN (Finite 0.25) (Finite (12582911 / 33554432)))
        5000000 example_motion) = Some 5062500"
proof -
  have n: "\<not> front_wall_detection example_config
       (example_detection NaN NaN (Finite 0.3) (Finite 0.3))"
    by (simp add: example_eval round_eval)
  have f0: "front_wall_detection example_config
       (example_detection NaN NaN (to_float (Finite 0.18)) (to_float (Finite 0.18)))"
    and f1: "front_wall_detection example_config
       (example_detection NaN NaN (to_float (Finite 0.2)) (to_float (Finite 0.18)))"
    and f2: "front_wall_detection (example_config\<lparr>CELL_DIMENSION := 0.25\<rparr>)
       (example_detection NaN NaN (Finite 0.25) (Finite 0.25))"
    by (simp_all add: example_eval trunc_def round_eval)
  have x0: "to_double (fmul (to_double (fsub (get_front_wall_distance
                 (example_detection NaN NaN (to_float (Finite 0.18)) (to_float (Finite 0.18))))
                                     (to_double (Finite (CELL_DIMENSION example_config)))))
                    (to_double (Finite (MICROMETERS_PER_METER example_config))))
              = Finite (2013265921875 / 281474976710656)"
    by (simp add: example_eval round_eval)
  have x1: "to_double (fmul (to_double (fsub (get_front_wall_distance
                 (example_detection NaN NaN (to_float (Finite 0.2)) (to_float (Finite 0.18))))
                                     (to_double (Finite (CELL_DIMENSION example_config)))))
                    (to_double (Finite (MICROMETERS_PER_METER example_config))))
              = Finite (1374389207040001 / 137438953472)"
    by (simp add: example_eval round_eval)
  have t0: "trunc (2013265921875 / 281474976710656) = 0"
    and t1: "trunc (1374389207040001 / 137438953472) = 9999"
    by (simp_all add: example_eval trunc_def round_eval)
  have w2: "get_front_wall_distance (example_detection NaN NaN (Finite 0.25) (Finite 0.25))
     = Finite 0.25"
    and c2: "to_double (Finite (CELL_DIMENSION (example_config\<lparr>CELL_DIMENSION := 0.25\<rparr>)))
     = Finite 0.25"
    and k2: "to_double (Finite (MICROMETERS_PER_METER (example_config\<lparr>CELL_DIMENSION := 0.25\<rparr>)))
     = Finite 1000000"
    by (simp_all add: example_eval trunc_def round_eval)
  have f3: "front_wall_detection (example_config\<lparr>CELL_DIMENSION := 0.25\<rparr>)
       (example_detection NaN NaN (Finite 0.25) (Finite (12582911 / 33554432)))"
    by (simp add: example_eval)
  have x3: "to_double (fmul (to_double (fsub (get_front_wall_distance
                 (example_detection NaN NaN (Finite 0.25) (Finite (12582911 / 33554432))))
                   (to_double (Finite (CELL_DIMENSION (example_config\<lparr>CELL_DIMENSION := 0.25\<rparr>))))))
                    (to_double (Finite (MICROMETERS_PER_METER
                                          (example_config\<lparr>CELL_DIMENSION := 0.25\<rparr>)))))
              = Finite 62500"
    by (simp add: example_eval round_eval)
  have t3: "trunc 62500 = 62500"
    by (simp add: trunc_def)
  have r: "int32_range 5000000" "int32_range 0" "int32_range 9999" "int32_range (5000000 + 9999)"
    "int32_range 62500" "int32_range (5000000 + 62500)"
    by (simp_all add: int32_range_def)
  note e = entered_next_cell_rounded [of "example_config\<lparr>CELL_DIMENSION := 0.25\<rparr>"
      "example_detection NaN NaN (Finite 0.25) (Finite (12582911 / 33554432))"
      5000000 example_motion 62500 0 0]
  from e f3 x3 r have re: "map_option current_cell_start_micrometers
     (entered_next_cell (example_config\<lparr>CELL_DIMENSION := 0.25\<rparr>)
        (example_detection NaN NaN (Finite 0.25) (Finite (12582911 / 33554432)))
        5000000 example_motion) = Some 5062500"
    unfolding t3 by simp
  note a = entered_next_cell_rounded [of example_config
      "example_detection NaN NaN (Finite 0.3) (Finite 0.3)" 5000000 example_motion 0 0 0]
  note b = entered_next_cell_rounded [of example_config
      "example_detection NaN NaN (to_float (Finite 0.18)) (to_float (Finite 0.18))"
      5000000 example_motion "2013265921875 / 281474976710656" 0 0]
  note c = entered_next_cell_rounded [of example_config
      "example_detection NaN NaN (to_float (Finite 0.2)) (to_float (Finite 0.18))"
      5000000 example_motion "1374389207040001 / 137438953472" 0 0]
  note d = entered_next_cell_rounded [of "example_config\<lparr>CELL_DIMENSION := 0.25\<rparr>"
      "example_detection NaN NaN (Finite 0.25) (Finite 0.25)"
      5000000 example_motion 0 "0.25" 1000000]
  from a n have ra: "map_option current_cell_start_micrometers
     (entered_next_cell example_config (example_detection NaN NaN (Finite 0.3) (Finite 0.3))
        5000000 example_motion) = Some 5000000"
    by simp
  from b f0 x0 r have rb: "map_option current_cell_start_micrometers
     (entered_next_cell example_config
        (example_detection NaN NaN (to_float (Finite 0.18)) (to_float (Finite 0.18)))
        5000000 example_motion) = Some 5000000"
    unfolding t0 by simp
  from c f1 x1 r have rc: "map_option current_cell_start_micrometers
     (entered_next_cell example_config
        (example_detection NaN NaN (to_float (Finite 0.2)) (to_float (Finite 0.18)))
        5000000 example_motion) = Some 5009999"
    "map_option cell_shift
     (entered_next_cell example_config
        (example_detection NaN NaN (to_float (Finite 0.2)) (to_float (Finite 0.18)))
        5000000 example_motion) = Some (Finite 0)"
    unfolding t1 by simp_all
  from d f2 w2 c2 k2 r have rd: "map_option current_cell_start_micrometers
     (entered_next_cell (example_config\<lparr>CELL_DIMENSION := 0.25\<rparr>)
        (example_detection NaN NaN (Finite 0.25) (Finite 0.25))
        5000000 example_motion) = Some 5000000"
    by simp
  from n f0 f1 f2 f3 t0 t1 t3 w2 r ra rb rc rd re show ?thesis by blast
qed

section \<open>Distance needed to reach a speed\<close>











section \<open>Turning in place\<close>

lemma busy_wait_exit:
  "\<not> clock_ticks m - starting_time \<le> n \<Longrightarrow> busy_wait starting_time n m = Some m"
  by (subst busy_wait.simps) simp

lemma busy_wait_step:
  "clock_ticks m - starting_time \<le> n \<Longrightarrow>
   busy_wait starting_time n m =
     busy_wait starting_time n
       (m\<lparr>clock_ticks := clock_ticks m + 1,
          angular_history := angular_history m @ [target_angular_speed m]\<rparr>)"
  by (subst busy_wait.simps) simp

lemma unat_of_nat_32: "k < 2 ^ 32 \<Longrightarrow> unat (of_nat k :: 32 word) = k"
  by (simp add: unat_of_nat)

lemma busy_wait_run:
  assumes "k + j = Suc (unat n)" and "Suc (unat n) < 2 ^ 32"
    and "clock_ticks m - starting_time = of_nat k"
  shows "busy_wait starting_time n m =
           Some (m\<lparr>clock_ticks := clock_ticks m + of_nat j,
                   angular_history := angular_history m @ replicate j (target_angular_speed m)\<rparr>)"
  using assms
proof (induction j arbitrary: k m)
  case 0
  from 0 have "k < 2 ^ 32" by simp
  then have u: "unat (of_nat k :: 32 word) = k" by (rule unat_of_nat_32)
  from 0 have "unat n < k" by simp
  with u have "\<not> (of_nat k :: 32 word) \<le> n" by (simp only: word_le_nat_alt not_le)
  with 0 show ?case by (simp add: busy_wait_exit)
next
  case (Suc j)
  from Suc.prems have "k < 2 ^ 32" by simp
  then have u: "unat (of_nat k :: 32 word) = k" by (rule unat_of_nat_32)
  from Suc.prems have "k \<le> unat n" by simp
  with u have "(of_nat k :: 32 word) \<le> n" by (simp only: word_le_nat_alt)
  with Suc.prems have le: "clock_ticks m - starting_time \<le> n" by simp
  let ?m = "m\<lparr>clock_ticks := clock_ticks m + 1,
               angular_history := angular_history m @ [target_angular_speed m]\<rparr>"
  from Suc.prems have c: "clock_ticks ?m - starting_time = of_nat (Suc k)" by simp
  from Suc.prems have s: "Suc k + j = Suc (unat n)" by simp
  have "busy_wait starting_time n ?m =
      Some (?m\<lparr>clock_ticks := clock_ticks ?m + of_nat j,
               angular_history := angular_history ?m @ replicate j (target_angular_speed ?m)\<rparr>)"
    using s Suc.prems(2) c by (rule Suc.IH)
  then show ?case unfolding busy_wait_step [OF le] by (simp add: add.assoc)
qed

lemma turn_run:
  "(case busy_wait (clock_ticks m) 88 (m\<lparr>target_angular_speed := Finite w\<rparr>) of
      None \<Rightarrow> None
    | Some m1 \<Rightarrow> busy_wait (clock_ticks m) 176 (m1\<lparr>target_angular_speed := Finite 0\<rparr>)) =
   Some (m\<lparr>target_angular_speed := Finite 0, clock_ticks := clock_ticks m + 177,
           angular_history := angular_history m @ replicate 89 (Finite w) @
                              replicate 88 (Finite 0)\<rparr>)"
proof -
  define m0 where "m0 = m\<lparr>target_angular_speed := Finite w\<rparr>"
  define m1 where "m1 = m0\<lparr>clock_ticks := clock_ticks m0 + of_nat 89,
      angular_history := angular_history m0 @ replicate 89 (target_angular_speed m0)\<rparr>"
  define m2 where "m2 = m1\<lparr>target_angular_speed := Finite 0\<rparr>"
  have c0: "clock_ticks m0 - clock_ticks m = of_nat 0" by (simp add: m0_def)
  have one: "busy_wait (clock_ticks m) 88 m0 = Some m1"
    unfolding m1_def by (rule busy_wait_run [of 0 89 88, OF _ _ c0]) simp_all
  have c2: "clock_ticks m2 - clock_ticks m = of_nat 89" by (simp add: m2_def m1_def m0_def)
  have two: "busy_wait (clock_ticks m) 176 m2 =
      Some (m2\<lparr>clock_ticks := clock_ticks m2 + of_nat 88,
               angular_history := angular_history m2 @ replicate 88 (target_angular_speed m2)\<rparr>)"
    by (rule busy_wait_run [of 89 88 176, OF _ _ c2]) simp_all
  have fin: "m2\<lparr>clock_ticks := clock_ticks m2 + of_nat 88,
               angular_history := angular_history m2 @ replicate 88 (target_angular_speed m2)\<rparr> =
      m\<lparr>target_angular_speed := Finite 0, clock_ticks := clock_ticks m + 177,
           angular_history := angular_history m @ replicate 89 (Finite w) @
                              replicate 88 (Finite 0)\<rparr>"
    by (simp add: m2_def m1_def m0_def)
  show ?thesis
    unfolding m0_def [symmetric] one option.case m2_def [symmetric] two fin by (rule refl)
qed

text \<open>
  Claim C4, amended. From any clock value, \<open>turn_left\<close> and \<open>turn_right\<close> return. The
  angular speed \<open>-8\<pi>\<close> (left) or \<open>8\<pi>\<close> (right) is in force while the elapsed tick count is
  0 to 88, which is 89 ticks; then 0 is in force while the count is 89 to 176, which is 88
  ticks; the function returns when the count reaches 177. Only the difference between the
  clock and its starting value is used, modulo \<open>2\<^sup>3\<^sup>2\<close>.
\<close>

theorem turn_tick_windows:
  "turn_left m =
     Some (m\<lparr>target_angular_speed := Finite 0, clock_ticks := clock_ticks m + 177,
             angular_history := angular_history m @ replicate 89 (Finite (- 8 * pi)) @
                                replicate 88 (Finite 0)\<rparr>) \<and>
   turn_right m =
     Some (m\<lparr>target_angular_speed := Finite 0, clock_ticks := clock_ticks m + 177,
             angular_history := angular_history m @ replicate 89 (Finite (8 * pi)) @
                                replicate 88 (Finite 0)\<rparr>)"
  unfolding turn_left_def turn_right_def Let_def by (simp only: turn_run simp_thms)

text \<open>
  Claim C4, as stated, fails: started at clock value 0, \<open>turn_left\<close> holds \<open>-8\<pi>\<close> for 89
  ticks, not 88, and returns at tick 177, not 176. The second window is 88 ticks long.
\<close>

theorem turn_tick_windows_counterexample:
  "map_option angular_history (turn_left example_motion) =
     Some (replicate 89 (Finite (- 8 * pi)) @ replicate 88 (Finite 0)) \<and>
   map_option angular_history (turn_left example_motion) \<noteq>
     Some (replicate 88 (Finite (- 8 * pi)) @ replicate 88 (Finite 0)) \<and>
   map_option clock_ticks (turn_left example_motion) = Some 177 \<and>
   map_option angular_history (turn_right example_motion) =
     Some (replicate 89 (Finite (8 * pi)) @ replicate 88 (Finite 0)) \<and>
   map_option clock_ticks (turn_right example_motion) = Some 177"
proof -
  have l: "turn_left example_motion =
     Some (example_motion\<lparr>target_angular_speed := Finite 0,
             clock_ticks := clock_ticks example_motion + 177,
             angular_history := angular_history example_motion @
               replicate 89 (Finite (- 8 * pi)) @ replicate 88 (Finite 0)\<rparr>)"
    unfolding turn_left_def Let_def by (simp only: turn_run)
  have r: "turn_right example_motion =
     Some (example_motion\<lparr>target_angular_speed := Finite 0,
             clock_ticks := clock_ticks example_motion + 177,
             angular_history := angular_history example_motion @
               replicate 89 (Finite (8 * pi)) @ replicate 88 (Finite 0)\<rparr>)"
    unfolding turn_right_def Let_def by (simp only: turn_run)
  have len: "length (replicate 89 (Finite (- 8 * pi)) @ replicate 88 (Finite 0)) \<noteq>
             length (replicate 88 (Finite (- 8 * pi)) @ replicate 88 (Finite 0))"
    by simp
  then have ne: "replicate 89 (Finite (- 8 * pi)) @ replicate 88 (Finite 0) \<noteq>
             replicate 88 (Finite (- 8 * pi)) @ replicate 88 (Finite 0)"
    by metis
  show ?thesis unfolding l r using ne by (simp add: example_motion_def)
qed

end
